theory Spec2Isabelle
  imports Main "HOL-Library.Multiset"
begin

section \<open>Compliance scoring engine of the document governance app\<close>

text \<open>
  A shallow embedding of \<^verbatim>\<open>ComplianceService\<close> (services/compliance.ts) and of the
  parts of the database layer and of the configuration it reads.

  Conventions of the model:
  \<^item> a JavaScript number that holds a size, a count, a score or a time value is an \<open>int\<close>
    (a safe integer, below \<open>2 ^ 53\<close> in magnitude);
  \<^item> a string is a \<open>string\<close> of ASCII characters;
  \<^item> \<^verbatim>\<open>null\<close> and \<^verbatim>\<open>undefined\<close> are \<open>None\<close>;
  \<^item> the wall clock read by \<^verbatim>\<open>new Date()\<close> is the parameter \<open>now\<close>, in
    milliseconds since the epoch;
  \<^item> the process-wide \<^verbatim>\<open>config.compliance\<close> object is the parameter \<open>cfg\<close>;
  \<^item> the SQLite tables are lists of rows, passed and returned explicitly.
\<close>

subsection \<open>Data model\<close>

text \<open>\<^verbatim>\<open>ComplianceIssueType\<close> of types/index.ts.\<close>

datatype ComplianceIssueType =
    file_too_large
  | disallowed_file_type
  | expired_document
  | missing_metadata
  | retention_policy_violation
  | access_policy_violation
  | version_limit_exceeded
  | scan_failed
  | link_expired

text \<open>The string union \<^verbatim>\<open>'low' | 'medium' | 'high' | 'critical'\<close>.\<close>

datatype Severity = Low | Medium | High | Critical

text \<open>
  A JavaScript \<^verbatim>\<open>Date\<close>: a time value in milliseconds since the epoch, or the
  Invalid Date, whose time value is \<^verbatim>\<open>NaN\<close>.
\<close>

datatype Date = Date int | InvalidDate

text \<open>
  The values stored under \<^verbatim>\<open>details\<close>: numbers, strings, string arrays, and the
  result of \<^verbatim>\<open>toISOString()\<close> on a date with the given time value (the text is
  determined by the time value and is kept symbolic).
\<close>

datatype Detail = DNum int | DStr string | DStrs "string list" | DIso int

text \<open>One element of \<^verbatim>\<open>ComplianceCheckResult['issues']\<close>.\<close>

record Issue =
  type :: ComplianceIssueType
  severity :: Severity
  message :: string
  details :: "(string \<times> Detail) list option"

record ComplianceCheckResult =
  passed :: bool
  issues :: "Issue list"
  score :: int

text \<open>
  The fields of \<^verbatim>\<open>DocumentMetadata\<close> that the service reads. The field
  \<^verbatim>\<open>confidentiality\<close> is a string at run time; the service only tests it for
  truthiness.
\<close>

record DocumentMetadata =
  category :: "string option"
  confidentiality :: "string option"
  retentionDate :: "Date option"

text \<open>\<^verbatim>\<open>config.compliance\<close>, as far as the service reads it.\<close>

record ComplianceConfig =
  maxFileSizeMB :: int
  allowedFileTypes :: "string list"

text \<open>
  The defaults of config/index.ts when the environment sets nothing:
  \<^verbatim>\<open>MAX_FILE_SIZE_MB || '50'\<close> and
  \<^verbatim>\<open>ALLOWED_FILE_TYPES || 'pdf,doc,docx,xls,xlsx,ppt,pptx,txt,csv'\<close>.
\<close>

definition defaultConfig :: ComplianceConfig where
  "defaultConfig =
     \<lparr>maxFileSizeMB = 50,
      allowedFileTypes =
        [''pdf'', ''doc'', ''docx'', ''xls'', ''xlsx'', ''ppt'', ''pptx'', ''txt'', ''csv'']\<rparr>"

subsection \<open>Numbers and strings of the run time\<close>

text \<open>Template literals print an integer in decimal.\<close>

definition digit :: "nat \<Rightarrow> char" where
  "digit d = ''0123456789'' ! d"

fun showNat :: "nat \<Rightarrow> string" where
  "showNat n = (if n < 10 then [digit n] else showNat (n div 10) @ [digit (n mod 10)])"

declare showNat.simps [simp del]

definition showInt :: "int \<Rightarrow> string" where
  "showInt i = (if i < 0 then CHR ''-'' # showNat (nat (- i)) else showNat (nat i))"

text \<open>
  \<^verbatim>\<open>(size / (1024 * 1024)).toFixed(2)\<close>. The divisor is a power of two, so the
  quotient of a safe integer is exact, and \<^verbatim>\<open>toFixed(2)\<close> picks the integer \<open>n\<close>
  with \<open>n / 100\<close> nearest to it, the larger one at a tie; a negative number is printed as
  the minus sign and its absolute value.
\<close>

definition hundredthsOfMB :: "int \<Rightarrow> nat" where
  "hundredthsOfMB sz = nat ((200 * \<bar>sz\<bar> + 1048576) div 2097152)"

definition toFixed2MB :: "int \<Rightarrow> string" where
  "toFixed2MB sz =
     (let n = hundredthsOfMB sz;
          s = showNat (n div 100) @ ''.'' @ [digit (n div 10 mod 10), digit (n mod 10)]
      in if sz < 0 then CHR ''-'' # s else s)"

text \<open>\<^verbatim>\<open>Array.prototype.join\<close> with a separator.\<close>

fun join :: "string \<Rightarrow> string list \<Rightarrow> string" where
  "join sep [] = []"
| "join sep [x] = x"
| "join sep (x # y # ys) = x @ sep @ join sep (y # ys)"

text \<open>\<^verbatim>\<open>String.prototype.toLowerCase\<close> on ASCII.\<close>

definition lowerChar :: "char \<Rightarrow> char" where
  "lowerChar c =
     (case map_of (zip ''ABCDEFGHIJKLMNOPQRSTUVWXYZ'' ''abcdefghijklmnopqrstuvwxyz'') c of
        None \<Rightarrow> c
      | Some l \<Rightarrow> l)"

definition toLowerCase :: "string \<Rightarrow> string" where
  "toLowerCase s = map lowerChar s"

text \<open>
  \<^verbatim>\<open>path.extname\<close> of the Node run time, POSIX flavour: trailing separators are
  ignored, the last path component is taken, and the result is the text from its last
  \<^verbatim>\<open>.\<close> to its end; it is empty when the component has no dot, when its last dot is
  its first character, and when the component is \<^verbatim>\<open>..\<close>.
\<close>

definition extname :: "string \<Rightarrow> string" where
  "extname p =
     (let trimmed = rev (dropWhile (\<lambda>c. c = CHR ''/'') (rev p));
          comp = rev (takeWhile (\<lambda>c. c \<noteq> CHR ''/'') (rev trimmed));
          e = rev (takeWhile (\<lambda>c. c \<noteq> CHR ''.'') (rev comp));
          stem = take (length comp - length e - 1) comp
      in if CHR ''.'' \<notin> set comp \<or> stem = [] \<or> comp = ''..'' then [] else CHR ''.'' # e)"

text \<open>\<^verbatim>\<open>s.replace('.', '')\<close>: the first dot is removed.\<close>

definition replaceDot :: "string \<Rightarrow> string" where
  "replaceDot s = remove1 (CHR ''.'') s"

text \<open>The time in one day, \<^verbatim>\<open>1000 * 60 * 60 * 24\<close> milliseconds.\<close>

definition msPerDay :: int where
  "msPerDay = 1000 * 60 * 60 * 24"

text \<open>
  \<^verbatim>\<open>Math.floor((date.getTime() - now.getTime()) / (1000 * 60 * 60 * 24))\<close> for
  a date with time value \<open>t\<close>.
\<close>

definition daysUntil :: "int \<Rightarrow> int \<Rightarrow> int" where
  "daysUntil now t = (t - now) div msPerDay"

text \<open>The double quote character.\<close>

definition dquote :: char where
  "dquote = CHR 0x22"

subsection \<open>The checks of \<^verbatim>\<open>ComplianceService\<close>\<close>

text \<open>\<^verbatim>\<open>checkFileSize(size)\<close>.\<close>

definition checkFileSize :: "ComplianceConfig \<Rightarrow> int \<Rightarrow> Issue option" where
  "checkFileSize cfg sz =
     (let maxSizeBytes = maxFileSizeMB cfg * 1024 * 1024 in
      if sz > maxSizeBytes then
        (let actualMB = toFixed2MB sz in
         Some \<lparr>type = file_too_large,
               severity = (if sz > maxSizeBytes * 2 then Critical else High),
               message = ''File size ('' @ actualMB @ ''MB) exceeds maximum allowed (''
                           @ showInt (maxFileSizeMB cfg) @ ''MB)'',
               details = Some [(''actualSize'', DNum sz), (''maxSize'', DNum maxSizeBytes)]\<rparr>)
      else None)"

text \<open>
  The local \<^verbatim>\<open>ext\<close> of \<^verbatim>\<open>checkFileType\<close>:
  \<^verbatim>\<open>path.extname(filename).toLowerCase().replace('.', '')\<close>.
\<close>

definition extensionOf :: "string \<Rightarrow> string" where
  "extensionOf filename = replaceDot (toLowerCase (extname filename))"

text \<open>\<^verbatim>\<open>checkFileType(filename)\<close>.\<close>

definition checkFileType :: "ComplianceConfig \<Rightarrow> string \<Rightarrow> Issue option" where
  "checkFileType cfg filename =
     (let ext = extensionOf filename in
      if ext = [] then
        Some \<lparr>type = disallowed_file_type,
              severity = High,
              message = ''File has no extension'',
              details = Some [(''filename'', DStr filename)]\<rparr>
      else if ext \<notin> set (allowedFileTypes cfg) then
        Some \<lparr>type = disallowed_file_type,
              severity = Critical,
              message = ''File type '' @ [dquote] @ ''.'' @ ext @ [dquote]
                          @ '' is not allowed. Allowed types: ''
                          @ join '', '' (allowedFileTypes cfg),
              details = Some [(''fileType'', DStr ext),
                              (''allowedTypes'', DStrs (allowedFileTypes cfg))]\<rparr>
      else None)"

text \<open>
  Truthiness of an optional string: \<^verbatim>\<open>undefined\<close> and the empty string are falsy.
\<close>

definition truthy :: "string option \<Rightarrow> bool" where
  "truthy s = (case s of None \<Rightarrow> False | Some v \<Rightarrow> v \<noteq> [])"

text \<open>\<^verbatim>\<open>checkMetadata(metadata)\<close>.\<close>

definition checkMetadata :: "DocumentMetadata option \<Rightarrow> Issue list" where
  "checkMetadata metadata =
     (case metadata of
        None \<Rightarrow>
          [\<lparr>type = missing_metadata, severity = Medium,
            message = ''Document has no metadata'', details = None\<rparr>]
      | Some m \<Rightarrow>
          (if \<not> truthy (category m) then
             [\<lparr>type = missing_metadata, severity = Low,
               message = ''Document is missing category'',
               details = Some [(''missingField'', DStr ''category'')]\<rparr>]
           else [])
          @
          (if \<not> truthy (confidentiality m) then
             [\<lparr>type = missing_metadata, severity = Medium,
               message = ''Document is missing confidentiality classification'',
               details = Some [(''missingField'', DStr ''confidentiality'')]\<rparr>]
           else []))"

text \<open>
  \<^verbatim>\<open>checkRetention(retentionDate)\<close>. Both comparisons are false on
  \<^verbatim>\<open>NaN\<close>, so the Invalid Date gives \<^verbatim>\<open>null\<close>.
\<close>

definition checkRetention :: "int \<Rightarrow> Date \<Rightarrow> Issue option" where
  "checkRetention now retDate =
     (case retDate of
        InvalidDate \<Rightarrow> None
      | Date t \<Rightarrow>
          (let daysUntilExpiry = daysUntil now t in
           if daysUntilExpiry < 0 then
             Some \<lparr>type = expired_document,
                   severity = Critical,
                   message = ''Document has expired (expired '' @ showInt \<bar>daysUntilExpiry\<bar>
                               @ '' days ago)'',
                   details = Some [(''retentionDate'', DIso t),
                                   (''daysExpired'', DNum \<bar>daysUntilExpiry\<bar>)]\<rparr>
           else if daysUntilExpiry \<le> 30 then
             Some \<lparr>type = retention_policy_violation,
                   severity = High,
                   message = ''Document will expire in '' @ showInt daysUntilExpiry @ '' days'',
                   details = Some [(''retentionDate'', DIso t),
                                   (''daysUntilExpiry'', DNum daysUntilExpiry)]\<rparr>
           else None))"

text \<open>\<^verbatim>\<open>checkLinkExpiry(expiryDate?)\<close>.\<close>

definition checkLinkExpiry :: "int \<Rightarrow> Date option \<Rightarrow> Issue option" where
  "checkLinkExpiry now expiryDate =
     (case expiryDate of
        None \<Rightarrow> None
      | Some InvalidDate \<Rightarrow> None
      | Some (Date t) \<Rightarrow>
          (let daysUntilExpiry = daysUntil now t in
           if daysUntilExpiry < 0 then
             Some \<lparr>type = link_expired,
                   severity = High,
                   message = ''Secure link has expired'',
                   details = Some [(''expiryDate'', DIso t),
                                   (''daysExpired'', DNum \<bar>daysUntilExpiry\<bar>)]\<rparr>
           else if daysUntilExpiry \<le> 7 then
             Some \<lparr>type = link_expired,
                   severity = Medium,
                   message = ''Secure link will expire in '' @ showInt daysUntilExpiry @ '' days'',
                   details = Some [(''expiryDate'', DIso t),
                                   (''daysUntilExpiry'', DNum daysUntilExpiry)]\<rparr>
           else None))"

text \<open>
  A row of the table \<^verbatim>\<open>document_versions\<close>, and
  \<^verbatim>\<open>versionRepository.getVersionCount\<close>:
  \<^verbatim>\<open>SELECT COUNT(*) FROM document_versions WHERE document_id = ?\<close>.
\<close>

record VersionRow =
  version_id :: string
  version_document_id :: string

definition getVersionCount :: "VersionRow list \<Rightarrow> string \<Rightarrow> int" where
  "getVersionCount document_versions documentId =
     int (length (filter (\<lambda>v. version_document_id v = documentId) document_versions))"

text \<open>
  \<^verbatim>\<open>checkVersionCount(documentId, maxVersions = 50)\<close>: the count is read from the
  version table; an omitted second argument takes the default.
\<close>

definition checkVersionCount :: "VersionRow list \<Rightarrow> string \<Rightarrow> int option \<Rightarrow> Issue option" where
  "checkVersionCount document_versions documentId maxVersionsArg =
     (let maxVersions = (case maxVersionsArg of None \<Rightarrow> 50 | Some m \<Rightarrow> m);
          count = getVersionCount document_versions documentId
      in if count > maxVersions then
           Some \<lparr>type = version_limit_exceeded,
                 severity = Medium,
                 message = ''Document has '' @ showInt count
                             @ '' versions, exceeding the recommended limit of ''
                             @ showInt maxVersions,
                 details = Some [(''versionCount'', DNum count),
                                 (''maxVersions'', DNum maxVersions)]\<rparr>
         else None)"

subsection \<open>\<^verbatim>\<open>checkDocument\<close>\<close>

text \<open>
  The local variables \<^verbatim>\<open>issues\<close> and \<^verbatim>\<open>score\<close> of
  \<^verbatim>\<open>checkDocument\<close> form the accumulator; each block of its body is one step on
  it, in the order of the source.
\<close>

type_synonym Acc = "Issue list \<times> int"

text \<open>The block \<^emph>\<open>Check file size\<close>.\<close>

definition sizeStep :: "ComplianceConfig \<Rightarrow> int \<Rightarrow> Acc \<Rightarrow> Acc" where
  "sizeStep cfg sz acc =
     (case checkFileSize cfg sz of
        None \<Rightarrow> acc
      | Some sizeIssue \<Rightarrow>
          (fst acc @ [sizeIssue],
           snd acc - (if severity sizeIssue = Critical then 40
                      else if severity sizeIssue = High then 25 else 10)))"

text \<open>The block \<^emph>\<open>Check file type\<close>.\<close>

definition typeStep :: "ComplianceConfig \<Rightarrow> string \<Rightarrow> Acc \<Rightarrow> Acc" where
  "typeStep cfg filename acc =
     (case checkFileType cfg filename of
        None \<Rightarrow> acc
      | Some typeIssue \<Rightarrow>
          (fst acc @ [typeIssue],
           snd acc - (if severity typeIssue = Critical then 50
                      else if severity typeIssue = High then 30 else 15)))"

text \<open>The block \<^emph>\<open>Check metadata completeness\<close>, a loop over the metadata issues.\<close>

fun metadataLoop :: "Issue list \<Rightarrow> Acc \<Rightarrow> Acc" where
  "metadataLoop [] acc = acc"
| "metadataLoop (issue # rest) acc =
     metadataLoop rest
       (fst acc @ [issue], snd acc - (if severity issue = High then 10 else 5))"

definition metadataStep :: "DocumentMetadata option \<Rightarrow> Acc \<Rightarrow> Acc" where
  "metadataStep metadata acc = metadataLoop (checkMetadata metadata) acc"

text \<open>
  The block \<^emph>\<open>Check retention policy\<close>, guarded by
  \<^verbatim>\<open>metadata?.retentionDate\<close>.
\<close>

definition retentionStep :: "int \<Rightarrow> DocumentMetadata option \<Rightarrow> Acc \<Rightarrow> Acc" where
  "retentionStep now metadata acc =
     (case metadata of
        None \<Rightarrow> acc
      | Some m \<Rightarrow>
          (case retentionDate m of
             None \<Rightarrow> acc
           | Some d \<Rightarrow>
               (case checkRetention now d of
                  None \<Rightarrow> acc
                | Some retentionIssue \<Rightarrow>
                    (fst acc @ [retentionIssue],
                     snd acc - (if severity retentionIssue = Critical then 30 else 20)))))"

definition checkDocument ::
  "ComplianceConfig \<Rightarrow> int \<Rightarrow> string \<Rightarrow> int \<Rightarrow> DocumentMetadata option \<Rightarrow> ComplianceCheckResult"
where
  "checkDocument cfg now filename sz metadata =
     (let acc = retentionStep now metadata
                  (metadataStep metadata
                    (typeStep cfg filename
                      (sizeStep cfg sz ([], 100))))
      in \<lparr>passed = (length (filter (\<lambda>i. severity i = Critical) (fst acc)) = 0),
          issues = fst acc,
          score = max 0 (snd acc)\<rparr>)"

subsection \<open>The database layer\<close>

datatype DocumentStatus =
  Pending_upload | Uploading | Uploaded | Synced | Error | Archived | Deleted

datatype IssueStatus = Open | Acknowledged | Resolved | Ignored

text \<open>
  A row of \<^verbatim>\<open>documents\<close>, with the columns the periodic check reads or writes.
  The column \<^verbatim>\<open>metadata\<close> holds the parsed JSON text, the column
  \<^verbatim>\<open>secure_link_expiry\<close> the date its text denotes (\<open>None\<close> for
  \<^verbatim>\<open>NULL\<close> and for the empty text).
\<close>

record DocumentRow =
  doc_id :: string
  original_filename :: string
  doc_size :: int
  secure_link_expiry :: "Date option"
  status :: DocumentStatus
  compliance_score :: int
  metadata :: "DocumentMetadata option"

text \<open>A row of \<^verbatim>\<open>compliance_issues\<close>; the identifier is a generated UUID.\<close>

record IssueRow =
  issue_id :: nat
  document_id :: string
  issue_type :: ComplianceIssueType
  issue_severity :: Severity
  issue_message :: string
  issue_details :: "(string \<times> Detail) list option"
  issue_status :: IssueStatus

text \<open>
  The database: its three tables and the supply of fresh identifiers that
  \<^verbatim>\<open>uuidv4()\<close> draws from.
\<close>

record Database =
  documents :: "DocumentRow list"
  compliance_issues :: "IssueRow list"
  document_versions :: "VersionRow list"
  uuids :: nat

text \<open>
  \<^verbatim>\<open>complianceIssueRepository.create\<close>: the insert leaves
  \<^verbatim>\<open>status\<close> to its column default, \<^verbatim>\<open>'open'\<close>.
\<close>

definition create :: "Database \<Rightarrow> nat \<Rightarrow> string \<Rightarrow> Issue \<Rightarrow> Database" where
  "create db newId documentId issue =
     db\<lparr>compliance_issues := compliance_issues db @
          [\<lparr>issue_id = newId, document_id = documentId, issue_type = type issue,
            issue_severity = severity issue, issue_message = message issue,
            issue_details = details issue, issue_status = Open\<rparr>]\<rparr>"

text \<open>\<^verbatim>\<open>createIssues(documentId, issues)\<close>.\<close>

fun createIssues :: "Database \<Rightarrow> string \<Rightarrow> Issue list \<Rightarrow> Database" where
  "createIssues db documentId [] = db"
| "createIssues db documentId (issue # rest) =
     createIssues (create (db\<lparr>uuids := Suc (uuids db)\<rparr>) (uuids db) documentId issue)
       documentId rest"

text \<open>
  \<^verbatim>\<open>complianceIssueRepository.findByDocumentId\<close>, newest row first.
\<close>

definition findByDocumentId :: "Database \<Rightarrow> string \<Rightarrow> IssueRow list" where
  "findByDocumentId db documentId =
     rev (filter (\<lambda>r. document_id r = documentId) (compliance_issues db))"

text \<open>
  \<^verbatim>\<open>documentRepository.update(id, { complianceScore })\<close>:
  \<^verbatim>\<open>UPDATE documents SET compliance_score = ? WHERE id = ?\<close>.
\<close>

definition updateComplianceScore :: "Database \<Rightarrow> string \<Rightarrow> int \<Rightarrow> Database" where
  "updateComplianceScore db docId newScore =
     db\<lparr>documents :=
          map (\<lambda>d. if doc_id d = docId then d\<lparr>compliance_score := newScore\<rparr> else d)
            (documents db)\<rparr>"

subsection \<open>\<^verbatim>\<open>runPeriodicCheck\<close>\<close>

text \<open>
  The source reads the clock anew in every check; one run is short, and the model keeps
  the single reading \<open>now\<close> for it.

  The issue list of the result after the link and version checks were appended.
\<close>

definition appendLinkAndVersion :: "int \<Rightarrow> Database \<Rightarrow> DocumentRow \<Rightarrow> Issue list \<Rightarrow> Issue list" where
  "appendLinkAndVersion now db doc resultIssues =
     (let issues1 =
            (case secure_link_expiry doc of
               None \<Rightarrow> resultIssues
             | Some e \<Rightarrow>
                 (case checkLinkExpiry now (Some e) of
                    None \<Rightarrow> resultIssues
                  | Some linkIssue \<Rightarrow> resultIssues @ [linkIssue]))
      in case checkVersionCount (document_versions db) (doc_id doc) None of
           None \<Rightarrow> issues1
         | Some versionIssue \<Rightarrow> issues1 @ [versionIssue])"

text \<open>
  \<^verbatim>\<open>existingTypes\<close>: the types of the document's issues whose status is
  \<^verbatim>\<open>'open'\<close>.
\<close>

definition existingTypes :: "Database \<Rightarrow> string \<Rightarrow> ComplianceIssueType list" where
  "existingTypes db documentId =
     map issue_type (filter (\<lambda>i. issue_status i = Open) (findByDocumentId db documentId))"

text \<open>
  The body of the loop over the documents: it returns the database after the document
  was processed and the number of issues it created.
\<close>

definition periodicBody ::
  "ComplianceConfig \<Rightarrow> int \<Rightarrow> Database \<Rightarrow> DocumentRow \<Rightarrow> Database \<times> nat"
where
  "periodicBody cfg now db doc =
     (let result = checkDocument cfg now (original_filename doc) (doc_size doc) (metadata doc);
          resultIssues = appendLinkAndVersion now db doc (issues result);
          existing = existingTypes db (doc_id doc);
          newIssues = filter (\<lambda>i. type i \<notin> set existing) resultIssues;
          db1 = (if length newIssues > 0 then createIssues db (doc_id doc) newIssues else db);
          db2 = updateComplianceScore db1 (doc_id doc) (score result)
      in (db2, length newIssues))"

fun periodicLoop ::
  "ComplianceConfig \<Rightarrow> int \<Rightarrow> DocumentRow list \<Rightarrow> Database \<times> nat \<Rightarrow> Database \<times> nat"
where
  "periodicLoop cfg now [] st = st"
| "periodicLoop cfg now (doc # docs) st =
     (let (db', n) = periodicBody cfg now (fst st) doc
      in periodicLoop cfg now docs (db', snd st + n))"

record PeriodicSummary =
  checked :: nat
  issuesFound :: nat

definition runPeriodicCheck ::
  "ComplianceConfig \<Rightarrow> int \<Rightarrow> Database \<Rightarrow> Database \<times> PeriodicSummary"
where
  "runPeriodicCheck cfg now db =
     (let docs = filter (\<lambda>d. status d = Synced) (documents db);
          st = periodicLoop cfg now docs (db, 0)
      in (fst st, \<lparr>checked = length docs, issuesFound = snd st\<rparr>))"

subsection \<open>Notions of the specification\<close>

text \<open>
  The extension as the specification words it: the text after the last
  \<^verbatim>\<open>.\<close> of the filename, lower-cased, and no extension when the filename has no
  \<^verbatim>\<open>.\<close>.
\<close>

definition specExtension :: "string \<Rightarrow> string option" where
  "specExtension filename =
     (if CHR ''.'' \<notin> set filename then None
      else Some (toLowerCase (rev (takeWhile (\<lambda>c. c \<noteq> CHR ''.'') (rev filename)))))"

text \<open>
  The deduction of an issue as the specification tables it, by the check that produces
  the type and by the severity: size 40, 25, 10; type 50, 30, 15; metadata 10 for
  high and 5 otherwise; retention 30 for critical and 20 otherwise. The types that
  \<^verbatim>\<open>checkDocument\<close> never produces deduct nothing.
\<close>

definition deduction :: "Issue \<Rightarrow> int" where
  "deduction i =
     (case type i of
        file_too_large \<Rightarrow>
          (if severity i = Critical then 40 else if severity i = High then 25 else 10)
      | disallowed_file_type \<Rightarrow>
          (if severity i = Critical then 50 else if severity i = High then 30 else 15)
      | missing_metadata \<Rightarrow> (if severity i = High then 10 else 5)
      | expired_document \<Rightarrow> (if severity i = Critical then 30 else 20)
      | retention_policy_violation \<Rightarrow> (if severity i = Critical then 30 else 20)
      | _ \<Rightarrow> 0)"

text \<open>The verdict of the specification: no issue has severity critical.\<close>

definition noCritical :: "Issue list \<Rightarrow> bool" where
  "noCritical is = (\<forall>i \<in> set is. severity i \<noteq> Critical)"

subsection \<open>Auxiliary notions\<close>

text \<open>The issues of an optional issue, as a list.\<close>

definition optList :: "'a option \<Rightarrow> 'a list" where
  "optList x = (case x of None \<Rightarrow> [] | Some v \<Rightarrow> [v])"

text \<open>The issue of the retention block, if any.\<close>

definition retentionIssue :: "int \<Rightarrow> DocumentMetadata option \<Rightarrow> Issue option" where
  "retentionIssue now md =
     (case md of
        None \<Rightarrow> None
      | Some m \<Rightarrow> (case retentionDate m of None \<Rightarrow> None | Some d \<Rightarrow> checkRetention now d))"

text \<open>The types of the open issues of a document in the issue table.\<close>

definition openTypes :: "Database \<Rightarrow> string \<Rightarrow> ComplianceIssueType set" where
  "openTypes db documentId =
     set (map issue_type
            (filter (\<lambda>r. document_id r = documentId \<and> issue_status r = Open)
               (compliance_issues db)))"

text \<open>
  The score that \<^verbatim>\<open>checkDocument\<close> computes for a row of the document table, and
  the effect on a row \<open>x\<close> of writing it back for the document \<open>doc\<close>.
\<close>

definition freshScore :: "ComplianceConfig \<Rightarrow> int \<Rightarrow> DocumentRow \<Rightarrow> int" where
  "freshScore cfg now doc =
     score (checkDocument cfg now (original_filename doc) (doc_size doc) (metadata doc))"

definition writeScore :: "ComplianceConfig \<Rightarrow> int \<Rightarrow> DocumentRow \<Rightarrow> DocumentRow \<Rightarrow> DocumentRow" where
  "writeScore cfg now doc x =
     (if doc_id x = doc_id doc then x\<lparr>compliance_score := freshScore cfg now doc\<rparr> else x)"

subsection \<open>Example data\<close>

text \<open>A version table with \<open>n\<close> versions of the document \<open>d\<close>.\<close>

definition exampleVersions :: "nat \<Rightarrow> string \<Rightarrow> VersionRow list" where
  "exampleVersions n d = map (\<lambda>k. \<lparr>version_id = showNat k, version_document_id = d\<rparr>) [0..<n]"

text \<open>Complete metadata without a retention date.\<close>

definition completeMetadata :: DocumentMetadata where
  "completeMetadata =
     \<lparr>category = Some ''contracts'', confidentiality = Some ''internal'', retentionDate = None\<rparr>"

text \<open>
  A synced document with a compliant file, complete metadata, a secure link that expires
  at time 0, 51 versions and a stale stored score; and a document that is not synced.
\<close>

definition exampleDoc :: DocumentRow where
  "exampleDoc =
     \<lparr>doc_id = ''doc-1'', original_filename = ''report.pdf'', doc_size = 1048576,
      secure_link_expiry = Some (Date 0), status = Synced, compliance_score = 40,
      metadata = Some completeMetadata\<rparr>"

definition pendingDoc :: DocumentRow where
  "pendingDoc =
     \<lparr>doc_id = ''doc-2'', original_filename = ''malware.exe'', doc_size = 1024,
      secure_link_expiry = None, status = Uploaded, compliance_score = 100,
      metadata = None\<rparr>"

text \<open>
  A database where the first document already has an open issue for its link and a
  resolved issue for its version count.
\<close>

definition exampleDb :: Database where
  "exampleDb =
     \<lparr>documents = [exampleDoc, pendingDoc],
      compliance_issues =
        [\<lparr>issue_id = 0, document_id = ''doc-1'', issue_type = link_expired,
          issue_severity = Medium, issue_message = ''Secure link will expire in 3 days'',
          issue_details = None, issue_status = Open\<rparr>,
         \<lparr>issue_id = 1, document_id = ''doc-1'', issue_type = version_limit_exceeded,
          issue_severity = Medium,
          issue_message = ''Document has 60 versions, exceeding the recommended limit of 50'',
          issue_details = None, issue_status = Resolved\<rparr>],
      document_versions = exampleVersions 51 ''doc-1'', uuids = 2\<rparr>"

section \<open>Properties\<close>

subsection \<open>Facts about the single checks\<close>

lemma checkFileSize_type:
  "checkFileSize cfg sz = Some i \<Longrightarrow>
     type i = file_too_large \<and> (severity i = High \<or> severity i = Critical)"
  by (auto simp: checkFileSize_def Let_def split: if_splits)

lemma checkFileType_type:
  "checkFileType cfg f = Some i \<Longrightarrow>
     type i = disallowed_file_type \<and> (severity i = High \<or> severity i = Critical)"
  by (auto simp: checkFileType_def Let_def split: if_splits)

lemma checkMetadata_type:
  "i \<in> set (checkMetadata md) \<Longrightarrow>
     type i = missing_metadata \<and> (severity i = Low \<or> severity i = Medium)"
  by (auto simp: checkMetadata_def split: option.splits if_splits)

lemma checkRetention_type:
  "checkRetention now d = Some i \<Longrightarrow>
     (type i = expired_document \<and> severity i = Critical) \<or>
     (type i = retention_policy_violation \<and> severity i = High)"
  by (auto simp: checkRetention_def Let_def split: Date.splits if_splits)

lemma retentionIssue_type:
  "retentionIssue now md = Some i \<Longrightarrow>
     (type i = expired_document \<and> severity i = Critical) \<or>
     (type i = retention_policy_violation \<and> severity i = High)"
  by (auto simp: retentionIssue_def split: option.splits dest: checkRetention_type)

lemma checkLinkExpiry_type:
  "checkLinkExpiry now e = Some i \<Longrightarrow>
     type i = link_expired \<and> (severity i = High \<or> severity i = Medium)"
  by (auto simp: checkLinkExpiry_def Let_def split: option.splits Date.splits if_splits)

lemma checkVersionCount_type:
  "checkVersionCount vs d mx = Some i \<Longrightarrow>
     type i = version_limit_exceeded \<and> severity i = Medium"
  by (auto simp: checkVersionCount_def Let_def split: if_splits)

subsection \<open>The accumulator of \<^verbatim>\<open>checkDocument\<close>\<close>

lemma sizeStep_eq:
  "sizeStep cfg sz acc =
     (fst acc @ optList (checkFileSize cfg sz),
      snd acc - sum_list (map deduction (optList (checkFileSize cfg sz))))"
  by (auto simp: sizeStep_def optList_def deduction_def split: option.splits
           dest: checkFileSize_type)

lemma typeStep_eq:
  "typeStep cfg f acc =
     (fst acc @ optList (checkFileType cfg f),
      snd acc - sum_list (map deduction (optList (checkFileType cfg f))))"
  by (auto simp: typeStep_def optList_def deduction_def split: option.splits
           dest: checkFileType_type)

lemma metadataLoop_eq:
  "metadataLoop xs acc =
     (fst acc @ xs, snd acc - (\<Sum>i\<leftarrow>xs. if severity i = High then 10 else 5))"
  by (induction xs arbitrary: acc) auto

lemma metadata_deduction:
  "i \<in> set (checkMetadata md) \<Longrightarrow> deduction i = 5"
  by (auto simp: deduction_def dest: checkMetadata_type)

lemma metadataStep_eq:
  "metadataStep md acc =
     (fst acc @ checkMetadata md, snd acc - sum_list (map deduction (checkMetadata md)))"
proof -
  have "(\<Sum>i\<leftarrow>checkMetadata md. if severity i = High then 10 else (5::int)) =
        sum_list (map deduction (checkMetadata md))"
    by (rule arg_cong [where f = sum_list], rule map_cong)
       (auto simp: deduction_def dest: checkMetadata_type)
  then show ?thesis
    by (simp add: metadataStep_def metadataLoop_eq)
qed

lemma retentionStep_eq:
  "retentionStep now md acc =
     (fst acc @ optList (retentionIssue now md),
      snd acc - sum_list (map deduction (optList (retentionIssue now md))))"
  by (auto simp: retentionStep_def retentionIssue_def optList_def deduction_def
           split: option.splits dest: checkRetention_type)

lemma checkDocument_issues:
  "issues (checkDocument cfg now f sz md) =
     optList (checkFileSize cfg sz) @ optList (checkFileType cfg f) @ checkMetadata md
       @ optList (retentionIssue now md)"
  by (simp add: checkDocument_def sizeStep_eq typeStep_eq metadataStep_eq retentionStep_eq)

lemma checkDocument_score:
  "score (checkDocument cfg now f sz md) =
     max 0 (100 - sum_list (map deduction (issues (checkDocument cfg now f sz md))))"
  by (simp add: checkDocument_def sizeStep_eq typeStep_eq metadataStep_eq retentionStep_eq)

lemma checkDocument_passed:
  "passed (checkDocument cfg now f sz md) =
     noCritical (issues (checkDocument cfg now f sz md))"
  by (simp add: checkDocument_def Let_def noCritical_def filter_empty_conv)

lemma deduction_nonneg: "0 \<le> deduction i"
  by (simp add: deduction_def split: ComplianceIssueType.splits)

subsection \<open>The issues of one type in a result\<close>

lemma filter_all: "(\<And>x. x \<in> set xs \<Longrightarrow> P x) \<Longrightarrow> filter P xs = xs"
  by (induction xs) auto

lemma filter_none: "(\<And>x. x \<in> set xs \<Longrightarrow> \<not> P x) \<Longrightarrow> filter P xs = []"
  by (induction xs) auto

lemma issues_file_too_large:
  "filter (\<lambda>i. type i = file_too_large) (issues (checkDocument cfg now f sz md)) =
     optList (checkFileSize cfg sz)"
proof -
  have a: "filter (\<lambda>i. type i = file_too_large) (optList (checkFileSize cfg sz)) =
           optList (checkFileSize cfg sz)"
    by (auto simp: optList_def split: option.splits dest: checkFileSize_type)
  have b: "filter (\<lambda>i. type i = file_too_large) (optList (checkFileType cfg f)) = []"
    by (auto simp: optList_def split: option.splits dest: checkFileType_type)
  have c: "filter (\<lambda>i. type i = file_too_large) (checkMetadata md) = []"
    by (rule filter_none) (auto dest: checkMetadata_type)
  have d: "filter (\<lambda>i. type i = file_too_large) (optList (retentionIssue now md)) = []"
    by (auto simp: optList_def split: option.splits dest: retentionIssue_type)
  show ?thesis
    by (simp add: checkDocument_issues a b c d)
qed

lemma issues_disallowed_file_type:
  "filter (\<lambda>i. type i = disallowed_file_type) (issues (checkDocument cfg now f sz md)) =
     optList (checkFileType cfg f)"
proof -
  have a: "filter (\<lambda>i. type i = disallowed_file_type) (optList (checkFileSize cfg sz)) = []"
    by (auto simp: optList_def split: option.splits dest: checkFileSize_type)
  have b: "filter (\<lambda>i. type i = disallowed_file_type) (optList (checkFileType cfg f)) =
           optList (checkFileType cfg f)"
    by (auto simp: optList_def split: option.splits dest: checkFileType_type)
  have c: "filter (\<lambda>i. type i = disallowed_file_type) (checkMetadata md) = []"
    by (rule filter_none) (auto dest: checkMetadata_type)
  have d: "filter (\<lambda>i. type i = disallowed_file_type) (optList (retentionIssue now md)) = []"
    by (auto simp: optList_def split: option.splits dest: retentionIssue_type)
  show ?thesis
    by (simp add: checkDocument_issues a b c d)
qed

lemma issues_missing_metadata:
  "filter (\<lambda>i. type i = missing_metadata) (issues (checkDocument cfg now f sz md)) =
     checkMetadata md"
proof -
  have a: "filter (\<lambda>i. type i = missing_metadata) (optList (checkFileSize cfg sz)) = []"
    by (auto simp: optList_def split: option.splits dest: checkFileSize_type)
  have b: "filter (\<lambda>i. type i = missing_metadata) (optList (checkFileType cfg f)) = []"
    by (auto simp: optList_def split: option.splits dest: checkFileType_type)
  have c: "filter (\<lambda>i. type i = missing_metadata) (checkMetadata md) = checkMetadata md"
    by (rule filter_all) (auto dest: checkMetadata_type)
  have d: "filter (\<lambda>i. type i = missing_metadata) (optList (retentionIssue now md)) = []"
    by (auto simp: optList_def split: option.splits dest: retentionIssue_type)
  show ?thesis
    by (simp add: checkDocument_issues a b c d)
qed

lemma issues_retention:
  "filter (\<lambda>i. type i = expired_document \<or> type i = retention_policy_violation)
     (issues (checkDocument cfg now f sz md)) = optList (retentionIssue now md)"
proof -
  let ?P = "\<lambda>i. type i = expired_document \<or> type i = retention_policy_violation"
  have a: "filter ?P (optList (checkFileSize cfg sz)) = []"
    by (auto simp: optList_def split: option.splits dest: checkFileSize_type)
  have b: "filter ?P (optList (checkFileType cfg f)) = []"
    by (auto simp: optList_def split: option.splits dest: checkFileType_type)
  have c: "filter ?P (checkMetadata md) = []"
    by (rule filter_none) (auto dest: checkMetadata_type)
  have d: "filter ?P (optList (retentionIssue now md)) = optList (retentionIssue now md)"
    by (auto simp: optList_def split: option.splits dest: retentionIssue_type)
  show ?thesis
    by (simp add: checkDocument_issues a b c d)
qed

lemma floor_div_bounds:
  fixes a b :: int
  assumes "0 < b"
  shows "b * (a div b) \<le> a" and "a < b * (a div b + 1)"
proof -
  have e: "a = b * (a div b) + a mod b"
    by simp
  have l: "0 \<le> a mod b" and u: "a mod b < b"
    using assms by simp_all
  show "b * (a div b) \<le> a"
    using e l by linarith
  have "b * (a div b + 1) = b * (a div b) + b"
    by (simp add: algebra_simps)
  then show "a < b * (a div b + 1)"
    using e u by linarith
qed

lemma hundredthsOfMB_rounds:
  assumes "0 \<le> sz"
  shows "2097152 * int (hundredthsOfMB sz) \<le> 200 * sz + 1048576"
    and "200 * sz + 1048576 < 2097152 * (int (hundredthsOfMB sz) + 1)"
proof -
  have n: "int (hundredthsOfMB sz) = (200 * sz + 1048576) div 2097152"
    using assms by (simp add: hundredthsOfMB_def)
  show "2097152 * int (hundredthsOfMB sz) \<le> 200 * sz + 1048576"
    unfolding n by (rule floor_div_bounds) simp
  show "200 * sz + 1048576 < 2097152 * (int (hundredthsOfMB sz) + 1)"
    unfolding n by (rule floor_div_bounds) simp
qed

lemma checkFileSize_cases:
  "checkFileSize cfg sz =
     (if sz \<le> maxFileSizeMB cfg * 1024 * 1024 then None
      else Some \<lparr>type = file_too_large,
                 severity = (if sz > 2 * (maxFileSizeMB cfg * 1024 * 1024) then Critical else High),
                 message = ''File size ('' @ toFixed2MB sz @ ''MB) exceeds maximum allowed (''
                             @ showInt (maxFileSizeMB cfg) @ ''MB)'',
                 details = Some [(''actualSize'', DNum sz),
                                 (''maxSize'', DNum (maxFileSizeMB cfg * 1024 * 1024))]\<rparr>)"
  by (simp add: checkFileSize_def Let_def)

lemma daysUntil_floor:
  "daysUntil now t = (t - now) div 86400000"
  "86400000 * daysUntil now t \<le> t - now"
  "t - now < 86400000 * (daysUntil now t + 1)"
proof -
  show d: "daysUntil now t = (t - now) div 86400000"
    by (simp add: daysUntil_def msPerDay_def)
  show "86400000 * daysUntil now t \<le> t - now"
    unfolding d by (rule floor_div_bounds) simp
  show "t - now < 86400000 * (daysUntil now t + 1)"
    unfolding d by (rule floor_div_bounds) simp
qed

subsection \<open>Deductions\<close>

lemma sum_deduction_nonneg: "0 \<le> sum_list (map deduction xs)"
  by (induction xs) (simp_all add: deduction_nonneg)

lemma sum_deduction_mset: "sum_list (map deduction xs) = sum_mset (image_mset deduction (mset xs))"
  by (induction xs) simp_all

lemma sum_deduction_mono:
  assumes "mset xs \<subseteq># mset ys"
  shows "sum_list (map deduction xs) \<le> sum_list (map deduction ys)"
proof -
  from assms obtain C where C: "mset ys = mset xs + C"
    by (auto simp: mset_subset_eq_exists_conv)
  have "0 \<le> sum_mset (image_mset deduction C)"
    by (induction C) (simp_all add: deduction_nonneg)
  then show ?thesis
    by (simp add: sum_deduction_mset C)
qed

lemma steps_nonincreasing:
  "snd (sizeStep cfg sz acc) \<le> snd acc"
  "snd (typeStep cfg f acc) \<le> snd acc"
  "snd (metadataStep md acc) \<le> snd acc"
  "snd (retentionStep now md acc) \<le> snd acc"
  by (simp_all add: sizeStep_eq typeStep_eq metadataStep_eq retentionStep_eq sum_deduction_nonneg)

subsection \<open>The extension of a filename\<close>

lemma lowerChar_dot [simp]: "lowerChar (CHR ''.'') = CHR ''.''"
  by (simp add: lowerChar_def)

lemma extname_no_dot:
  assumes "CHR ''.'' \<notin> set p"
  shows "extname p = []"
proof -
  let ?comp = "rev (takeWhile (\<lambda>c. c \<noteq> CHR ''/'')
                 (rev (rev (dropWhile (\<lambda>c. c = CHR ''/'') (rev p)))))"
  have "set ?comp \<subseteq> set p"
    by (auto dest!: set_takeWhileD set_dropWhileD)
  with assms have "CHR ''.'' \<notin> set ?comp"
    by blast
  then show ?thesis
    by (simp add: extname_def Let_def)
qed

lemma dropWhile_none: "\<forall>x \<in> set xs. \<not> P x \<Longrightarrow> dropWhile P xs = xs"
  by (cases xs) auto

lemma takeWhile_all: "\<forall>x \<in> set xs. P x \<Longrightarrow> takeWhile P xs = xs"
  by (simp add: takeWhile_eq_all_conv)

lemma takeWhile_upto:
  "c \<notin> set xs \<Longrightarrow> takeWhile (\<lambda>x. x \<noteq> c) (xs @ c # ys) = xs"
  by (induction xs) auto

lemma dotdot_conv:
  "stem \<noteq> [] \<Longrightarrow> stem @ CHR ''.'' # e = ''..'' \<longleftrightarrow> stem = ''.'' \<and> e = []"
  by (cases stem; cases "tl stem") auto

lemma extname_plain:
  assumes "CHR ''/'' \<notin> set stem" and "CHR ''/'' \<notin> set e" and "CHR ''.'' \<notin> set e"
  shows "extname (stem @ ''.'' @ e) =
           (if stem = [] \<or> (stem = ''.'' \<and> e = []) then [] else CHR ''.'' # e)"
proof -
  let ?p = "stem @ CHR ''.'' # e"
  have "dropWhile (\<lambda>c. c = CHR ''/'') (rev ?p) = rev ?p"
    by (rule dropWhile_none) (use assms in auto)
  then have trimmed: "rev (dropWhile (\<lambda>c. c = CHR ''/'') (rev ?p)) = ?p"
    by (simp only: rev_rev_ident)
  have "takeWhile (\<lambda>c. c \<noteq> CHR ''/'') (rev ?p) = rev ?p"
    by (rule takeWhile_all) (use assms in auto)
  then have comp: "rev (takeWhile (\<lambda>c. c \<noteq> CHR ''/'') (rev ?p)) = ?p"
    by (simp only: rev_rev_ident)
  have "takeWhile (\<lambda>c. c \<noteq> CHR ''.'') (rev e @ CHR ''.'' # rev stem) = rev e"
    by (rule takeWhile_upto) (use assms(3) in simp)
  then have e: "rev (takeWhile (\<lambda>c. c \<noteq> CHR ''.'') (rev ?p)) = e"
    by simp
  have stem: "take (length ?p - length e - 1) ?p = stem"
    by simp
  have dot: "CHR ''.'' \<in> set ?p"
    by simp
  have "extname ?p = (if stem = [] \<or> ?p = ''..'' then [] else CHR ''.'' # e)"
    unfolding extname_def Let_def trimmed comp e stem using dot by (simp only: not_True_eq_False simp_thms)
  then show ?thesis
    using dotdot_conv [of stem e] by (cases "stem = []") simp_all
qed

lemma extensionOf_no_dot: "CHR ''.'' \<notin> set p \<Longrightarrow> extensionOf p = []"
  by (simp add: extensionOf_def extname_no_dot toLowerCase_def replaceDot_def)

lemma extensionOf_plain:
  assumes "CHR ''/'' \<notin> set stem" and "CHR ''/'' \<notin> set e" and "CHR ''.'' \<notin> set e"
  shows "extensionOf (stem @ ''.'' @ e) = (if stem = [] then [] else toLowerCase e)"
proof (cases "stem = [] \<or> (stem = ''.'' \<and> e = [])")
  case True
  then have "extname (stem @ ''.'' @ e) = []"
    using extname_plain [OF assms] by simp
  then have "extensionOf (stem @ ''.'' @ e) = []"
    by (simp add: extensionOf_def toLowerCase_def replaceDot_def)
  with True show ?thesis
    by (auto simp: toLowerCase_def)
next
  case False
  then have "extname (stem @ ''.'' @ e) = CHR ''.'' # e"
    using extname_plain [OF assms] by simp
  then have "extensionOf (stem @ ''.'' @ e) = toLowerCase e"
    by (simp add: extensionOf_def toLowerCase_def replaceDot_def)
  with False show ?thesis
    by simp
qed

lemma checkFileType_cases:
  "checkFileType cfg filename =
     (if extensionOf filename = [] then
        Some \<lparr>type = disallowed_file_type, severity = High,
              message = ''File has no extension'',
              details = Some [(''filename'', DStr filename)]\<rparr>
      else if extensionOf filename \<notin> set (allowedFileTypes cfg) then
        Some \<lparr>type = disallowed_file_type, severity = Critical,
              message = ''File type '' @ [dquote] @ ''.'' @ extensionOf filename @ [dquote]
                          @ '' is not allowed. Allowed types: ''
                          @ join '', '' (allowedFileTypes cfg),
              details = Some [(''fileType'', DStr (extensionOf filename)),
                              (''allowedTypes'', DStrs (allowedFileTypes cfg))]\<rparr>
      else None)"
  by (simp add: checkFileType_def Let_def)

subsection \<open>The periodic check\<close>

lemma createIssues_frame:
  "documents (createIssues db docId xs) = documents db"
  "document_versions (createIssues db docId xs) = document_versions db"
  by (induction xs arbitrary: db) (simp_all add: create_def)

lemma createIssues_rows:
  "\<exists>rows. compliance_issues (createIssues db docId xs) = compliance_issues db @ rows
        \<and> map issue_type rows = map type xs
        \<and> (\<forall>r \<in> set rows. document_id r = docId \<and> issue_status r = Open)"
proof (induction xs arbitrary: db)
  case Nil
  show ?case by simp
next
  case (Cons x xs)
  let ?row = "\<lparr>issue_id = uuids db, document_id = docId, issue_type = type x,
                issue_severity = severity x, issue_message = message x,
                issue_details = details x, issue_status = Open\<rparr>"
  let ?db1 = "create (db\<lparr>uuids := Suc (uuids db)\<rparr>) (uuids db) docId x"
  have db1: "compliance_issues ?db1 = compliance_issues db @ [?row]"
    by (simp add: create_def)
  from Cons.IH [of ?db1] obtain rows where
    rows: "compliance_issues (createIssues ?db1 docId xs) = compliance_issues ?db1 @ rows"
      "map issue_type rows = map type xs"
      "\<forall>r \<in> set rows. document_id r = docId \<and> issue_status r = Open"
    by blast
  have "compliance_issues (createIssues db docId (x # xs)) = compliance_issues db @ (?row # rows)"
    using rows(1) db1 by simp
  moreover have "map issue_type (?row # rows) = map type (x # xs)"
    using rows(2) by simp
  moreover have "\<forall>r \<in> set (?row # rows). document_id r = docId \<and> issue_status r = Open"
    using rows(3) by simp
  ultimately show ?case
    by blast
qed

lemma existingTypes_openTypes: "set (existingTypes db docId) = openTypes db docId"
  by (auto simp: existingTypes_def findByDocumentId_def openTypes_def)

lemma periodicBody_documents:
  "documents (fst (periodicBody cfg now db doc)) =
     map (\<lambda>d. if doc_id d = doc_id doc
              then d\<lparr>compliance_score :=
                       score (checkDocument cfg now (original_filename doc) (doc_size doc)
                                (metadata doc))\<rparr>
              else d)
       (documents db)"
  by (simp add: periodicBody_def Let_def updateComplianceScore_def createIssues_frame)

lemma periodicBody_new:
  "compliance_issues (fst (periodicBody cfg now db doc)) =
     compliance_issues (createIssues db (doc_id doc)
       (filter (\<lambda>i. type i \<notin> openTypes db (doc_id doc))
          (appendLinkAndVersion now db doc
             (issues (checkDocument cfg now (original_filename doc) (doc_size doc)
                        (metadata doc))))))"
  "snd (periodicBody cfg now db doc) =
     length (filter (\<lambda>i. type i \<notin> openTypes db (doc_id doc))
          (appendLinkAndVersion now db doc
             (issues (checkDocument cfg now (original_filename doc) (doc_size doc)
                        (metadata doc)))))"
proof -
  let ?new = "filter (\<lambda>i. type i \<notin> openTypes db (doc_id doc))
          (appendLinkAndVersion now db doc
             (issues (checkDocument cfg now (original_filename doc) (doc_size doc)
                        (metadata doc))))"
  have e: "(if 0 < length ?new then createIssues db (doc_id doc) ?new else db) =
           createIssues db (doc_id doc) ?new"
    by (cases ?new) simp_all
  have b: "periodicBody cfg now db doc =
             (updateComplianceScore
                (if 0 < length ?new then createIssues db (doc_id doc) ?new else db)
                (doc_id doc)
                (score (checkDocument cfg now (original_filename doc) (doc_size doc)
                          (metadata doc))),
              length ?new)"
    unfolding periodicBody_def Let_def existingTypes_openTypes ..
  show "compliance_issues (fst (periodicBody cfg now db doc)) =
          compliance_issues (createIssues db (doc_id doc) ?new)"
    unfolding b e by (simp add: updateComplianceScore_def)
  show "snd (periodicBody cfg now db doc) = length ?new"
    unfolding b by simp
qed

lemma periodicBody_issues:
  "\<exists>created.
     compliance_issues (fst (periodicBody cfg now db doc)) = compliance_issues db @ created
     \<and> map issue_type created =
         filter (\<lambda>t. t \<notin> openTypes db (doc_id doc))
           (map type (appendLinkAndVersion now db doc
              (issues (checkDocument cfg now (original_filename doc) (doc_size doc)
                         (metadata doc)))))
     \<and> (\<forall>r \<in> set created. document_id r = doc_id doc \<and> issue_status r = Open)
     \<and> snd (periodicBody cfg now db doc) = length created"
proof -
  let ?cands = "appendLinkAndVersion now db doc
              (issues (checkDocument cfg now (original_filename doc) (doc_size doc)
                         (metadata doc)))"
  let ?new = "filter (\<lambda>i. type i \<notin> openTypes db (doc_id doc)) ?cands"
  have new: "map type ?new = filter (\<lambda>t. t \<notin> openTypes db (doc_id doc)) (map type ?cands)"
    by (simp add: filter_map comp_def)
  from createIssues_rows [of db "doc_id doc" ?new] obtain rows where
    r1: "compliance_issues (createIssues db (doc_id doc) ?new) = compliance_issues db @ rows" and
    r2: "map issue_type rows = map type ?new" and
    r3: "\<forall>r \<in> set rows. document_id r = doc_id doc \<and> issue_status r = Open"
    by blast
  have "length (map issue_type rows) = length (map type ?new)"
    by (simp only: r2)
  then have len: "length ?new = length rows"
    by (simp only: length_map)
  have c1: "compliance_issues (fst (periodicBody cfg now db doc)) = compliance_issues db @ rows"
    by (simp only: periodicBody_new r1)
  have c2: "map issue_type rows = filter (\<lambda>t. t \<notin> openTypes db (doc_id doc)) (map type ?cands)"
    by (simp only: r2 new)
  have c4: "snd (periodicBody cfg now db doc) = length rows"
    by (simp only: periodicBody_new len)
  show ?thesis
    by (rule exI [of _ rows]) (intro conjI c1 c2 r3 c4)
qed

lemma periodicBody_writeScore:
  "documents (fst (periodicBody cfg now db doc)) = map (writeScore cfg now doc) (documents db)"
  unfolding periodicBody_documents writeScore_def freshScore_def ..

lemma openTypes_mono:
  "compliance_issues db' = compliance_issues db @ rows \<Longrightarrow>
     openTypes db docId \<subseteq> openTypes db' docId"
  by (auto simp: openTypes_def)

lemma periodicLoop_issues:
  "\<exists>created.
     compliance_issues (fst (periodicLoop cfg now docs st)) = compliance_issues (fst st) @ created
     \<and> (\<forall>r \<in> set created. issue_type r \<notin> openTypes (fst st) (document_id r)
                            \<and> issue_status r = Open)
     \<and> snd (periodicLoop cfg now docs st) = snd st + length created"
proof (induction docs arbitrary: st)
  case Nil
  show ?case by simp
next
  case (Cons doc docs)
  let ?b = "periodicBody cfg now (fst st) doc"
  let ?st1 = "(fst ?b, snd st + snd ?b)"
  have step: "periodicLoop cfg now (doc # docs) st = periodicLoop cfg now docs ?st1"
    by (simp add: case_prod_beta)
  from periodicBody_issues [of cfg now "fst st" doc] obtain c1 where
    b1: "compliance_issues (fst ?b) = compliance_issues (fst st) @ c1" and
    b2: "map issue_type c1 =
           filter (\<lambda>t. t \<notin> openTypes (fst st) (doc_id doc))
             (map type (appendLinkAndVersion now (fst st) doc
                (issues (checkDocument cfg now (original_filename doc) (doc_size doc)
                           (metadata doc)))))" and
    b3: "\<forall>r \<in> set c1. document_id r = doc_id doc \<and> issue_status r = Open" and
    b4: "snd ?b = length c1"
    by blast
  from Cons.IH [of ?st1] obtain c2 where
    i1: "compliance_issues (fst (periodicLoop cfg now docs ?st1)) =
           compliance_issues (fst ?st1) @ c2" and
    i2: "\<forall>r \<in> set c2. issue_type r \<notin> openTypes (fst ?st1) (document_id r)
                        \<and> issue_status r = Open" and
    i3: "snd (periodicLoop cfg now docs ?st1) = snd ?st1 + length c2"
    by blast
  have n1: "\<forall>r \<in> set c1. issue_type r \<notin> openTypes (fst st) (document_id r)"
  proof
    fix r assume r: "r \<in> set c1"
    then have "issue_type r \<in> set (map issue_type c1)"
      by simp
    then have "issue_type r \<notin> openTypes (fst st) (doc_id doc)"
      unfolding b2 by simp
    with b3 r show "issue_type r \<notin> openTypes (fst st) (document_id r)"
      by simp
  qed
  have n2: "\<forall>r \<in> set c2. issue_type r \<notin> openTypes (fst st) (document_id r)"
    using i2 openTypes_mono [of "fst ?b" "fst st" c1] b1 by auto
  have a: "compliance_issues (fst (periodicLoop cfg now (doc # docs) st)) =
             compliance_issues (fst st) @ (c1 @ c2)"
    unfolding step i1 by (simp add: b1)
  have b: "\<forall>r \<in> set (c1 @ c2). issue_type r \<notin> openTypes (fst st) (document_id r)
                        \<and> issue_status r = Open"
    using n1 n2 b3 i2 by auto
  have c: "snd (periodicLoop cfg now (doc # docs) st) = snd st + length (c1 @ c2)"
    unfolding step i3 by (simp add: b4)
  show ?case
    by (rule exI [of _ "c1 @ c2"]) (intro conjI a b c)
qed

lemma periodicLoop_documents:
  "documents (fst (periodicLoop cfg now docs st)) =
     map (\<lambda>x. foldl (\<lambda>y doc. writeScore cfg now doc y) x docs) (documents (fst st))"
proof (induction docs arbitrary: st)
  case Nil
  show ?case by simp
next
  case (Cons doc docs)
  let ?b = "periodicBody cfg now (fst st) doc"
  let ?st1 = "(fst ?b, snd st + snd ?b)"
  have step: "periodicLoop cfg now (doc # docs) st = periodicLoop cfg now docs ?st1"
    by (simp add: case_prod_beta)
  show ?case
    unfolding step Cons.IH [of ?st1] by (simp add: periodicBody_writeScore comp_def)
qed

lemma foldl_writeScore:
  assumes "\<forall>doc \<in> set docs. doc_id doc = doc_id d \<longrightarrow> doc = d"
    and "x = d \<or> x = d\<lparr>compliance_score := freshScore cfg now d\<rparr>"
  shows "foldl (\<lambda>y doc. writeScore cfg now doc y) x docs =
           (if d \<in> set docs then d\<lparr>compliance_score := freshScore cfg now d\<rparr> else x)"
  using assms
proof (induction docs arbitrary: x)
  case Nil
  show ?case by simp
next
  case (Cons doc docs)
  have id: "doc_id x = doc_id d"
    using Cons.prems(2) by auto
  show ?case
  proof (cases "doc = d")
    case True
    have w: "writeScore cfg now doc x = d\<lparr>compliance_score := freshScore cfg now d\<rparr>"
      using Cons.prems(2) True by (auto simp: writeScore_def)
    have "foldl (\<lambda>y doc. writeScore cfg now doc y) (writeScore cfg now doc x) docs =
            d\<lparr>compliance_score := freshScore cfg now d\<rparr>"
      unfolding w using Cons.IH [of "d\<lparr>compliance_score := freshScore cfg now d\<rparr>"] Cons.prems(1)
      by simp
    with True show ?thesis
      by simp
  next
    case False
    with Cons.prems(1) have "doc_id doc \<noteq> doc_id d"
      by auto
    then have w: "writeScore cfg now doc x = x"
      using id by (simp add: writeScore_def)
    show ?thesis
      using Cons.IH [of x] Cons.prems False by (simp add: w)
  qed
qed

lemma runPeriodicCheck_documents:
  assumes "distinct (map doc_id (documents db))"
  shows "documents (fst (runPeriodicCheck cfg now db)) =
           map (\<lambda>d. if status d = Synced
                    then d\<lparr>compliance_score := freshScore cfg now d\<rparr> else d)
             (documents db)"
proof -
  let ?docs = "filter (\<lambda>d. status d = Synced) (documents db)"
  have inj: "inj_on doc_id (set (documents db))"
    using assms by (simp add: distinct_map)
  have row: "foldl (\<lambda>y doc. writeScore cfg now doc y) x ?docs =
               (if status x = Synced then x\<lparr>compliance_score := freshScore cfg now x\<rparr> else x)"
    if x: "x \<in> set (documents db)" for x
  proof -
    have "\<forall>doc \<in> set ?docs. doc_id doc = doc_id x \<longrightarrow> doc = x"
      using inj x by (auto dest: inj_onD)
    then have "foldl (\<lambda>y doc. writeScore cfg now doc y) x ?docs =
                 (if x \<in> set ?docs then x\<lparr>compliance_score := freshScore cfg now x\<rparr> else x)"
      by (rule foldl_writeScore) simp
    with x show ?thesis
      by simp
  qed
  have "documents (fst (runPeriodicCheck cfg now db)) =
          map (\<lambda>x. foldl (\<lambda>y doc. writeScore cfg now doc y) x ?docs) (documents db)"
    by (simp add: runPeriodicCheck_def Let_def periodicLoop_documents)
  also have "\<dots> = map (\<lambda>d. if status d = Synced
                    then d\<lparr>compliance_score := freshScore cfg now d\<rparr> else d)
             (documents db)"
    by (rule map_cong) (simp_all add: row)
  finally show ?thesis .
qed

lemma runPeriodicCheck_issues:
  "\<exists>created.
     compliance_issues (fst (runPeriodicCheck cfg now db)) = compliance_issues db @ created
     \<and> (\<forall>r \<in> set created. issue_type r \<notin> openTypes db (document_id r)
                            \<and> issue_status r = Open)
     \<and> issuesFound (snd (runPeriodicCheck cfg now db)) = length created"
  using periodicLoop_issues [of cfg now "filter (\<lambda>d. status d = Synced) (documents db)" "(db, 0)"]
  by (simp add: runPeriodicCheck_def Let_def)

subsection \<open>Evaluation at concrete inputs\<close>

lemmas ext_defs =
  extensionOf_def extname_def replaceDot_def toLowerCase_def lowerChar_def

lemma showInt_numerals:
  "showInt 0 = ''0''" "showInt 1 = ''1''" "showInt 5 = ''5''" "showInt 50 = ''50''" "showInt 51 = ''51''"
  by (simp_all add: showInt_def showNat.simps digit_def)

lemma ext_report_pdf: "extensionOf ''report.pdf'' = ''pdf''"
  by (simp add: ext_defs)

lemma ext_malware_exe: "extensionOf ''malware.exe'' = ''exe''"
  by (simp add: ext_defs)

lemma fileType_report_pdf: "checkFileType defaultConfig ''report.pdf'' = None"
  by (simp add: checkFileType_def ext_report_pdf defaultConfig_def)

lemma fileType_malware_exe:
  "checkFileType defaultConfig ''malware.exe'' =
     Some \<lparr>type = disallowed_file_type, severity = Critical,
           message = ''File type '' @ [dquote] @ ''.exe'' @ [dquote] @
             '' is not allowed. Allowed types: pdf, doc, docx, xls, xlsx, ppt, pptx, txt, csv'',
           details = Some [(''fileType'', DStr ''exe''),
             (''allowedTypes'', DStrs [''pdf'', ''doc'', ''docx'', ''xls'', ''xlsx'', ''ppt'',
                                       ''pptx'', ''txt'', ''csv''])]\<rparr>"
  by (simp add: checkFileType_def ext_malware_exe defaultConfig_def)

lemma fileSize_small:
  "checkFileSize defaultConfig 1024 = None" "checkFileSize defaultConfig 1048576 = None"
  by (simp_all add: checkFileSize_def defaultConfig_def)

lemma issues_report_pdf:
  "issues (checkDocument defaultConfig 0 ''report.pdf'' 1048576
      (Some \<lparr>category = Some ''contracts'', confidentiality = Some ''internal'',
             retentionDate = None\<rparr>)) = []"
  by (simp add: checkDocument_issues fileType_report_pdf fileSize_small checkMetadata_def
        truthy_def retentionIssue_def optList_def)

lemma issues_malware_exe:
  "issues (checkDocument defaultConfig 0 ''malware.exe'' 1024 None) =
     [the (checkFileType defaultConfig ''malware.exe''),
      \<lparr>type = missing_metadata, severity = Medium,
       message = ''Document has no metadata'', details = None\<rparr>]"
  by (simp add: checkDocument_issues fileType_malware_exe fileSize_small checkMetadata_def
        retentionIssue_def optList_def)

lemma getVersionCount_exampleVersions [simp]:
  "getVersionCount (exampleVersions n d) d = int n"
  by (simp add: getVersionCount_def exampleVersions_def filter_map comp_def)

lemma checkVersionCount_51:
  "checkVersionCount (exampleVersions 51 ''doc-1'') ''doc-1'' None =
     Some \<lparr>type = version_limit_exceeded, severity = Medium,
           message = ''Document has 51 versions, exceeding the recommended limit of 50'',
           details = Some [(''versionCount'', DNum 51), (''maxVersions'', DNum 50)]\<rparr>"
  by (simp add: checkVersionCount_def showInt_numerals)

lemma checkVersionCount_50:
  "checkVersionCount (exampleVersions 50 ''doc-1'') ''doc-1'' None = None"
  by (simp add: checkVersionCount_def)

lemma checkLinkExpiry_now:
  "checkLinkExpiry 0 (Some (Date 0)) =
     Some \<lparr>type = link_expired, severity = Medium,
           message = ''Secure link will expire in 0 days'',
           details = Some [(''expiryDate'', DIso 0), (''daysUntilExpiry'', DNum 0)]\<rparr>"
  by (simp add: checkLinkExpiry_def daysUntil_def msPerDay_def showInt_numerals)

lemma noCritical_appendLinkAndVersion:
  "noCritical (appendLinkAndVersion now db doc xs) = noCritical xs"
  by (auto simp: appendLinkAndVersion_def Let_def noCritical_def
           split: option.splits dest: checkLinkExpiry_type checkVersionCount_type)

lemma toFixed2MB_examples:
  "toFixed2MB 104857600 = ''100.00''" "toFixed2MB 104857601 = ''100.00''"
  "toFixed2MB 524288000 = ''500.00''" "toFixed2MB 131072 = ''0.13''"
  by (simp_all add: toFixed2MB_def hundredthsOfMB_def showNat.simps digit_def)

lemma defaultConfig_simps [simp]:
  "maxFileSizeMB defaultConfig = 50"
  "allowedFileTypes defaultConfig =
     [''pdf'', ''doc'', ''docx'', ''xls'', ''xlsx'', ''ppt'', ''pptx'', ''txt'', ''csv'']"
  by (simp_all add: defaultConfig_def)

lemma showInt_more:
  "showInt 7 = ''7''" "showInt 15 = ''15''" "showInt 10 = ''10''"
  by (simp_all add: showInt_def showNat.simps digit_def)

lemma daysUntil_examples:
  "daysUntil 1000 999 = - 1" "daysUntil 0 604800000 = 7" "daysUntil 0 691200000 = 8"
  "daysUntil 0 (- 1) = - 1" "daysUntil 0 1296000000 = 15" "daysUntil 0 2678400000 = 31"
  by (simp_all add: daysUntil_def msPerDay_def)

lemma fileSize_500MB:
  "checkFileSize defaultConfig 524288000 =
     Some \<lparr>type = file_too_large, severity = Critical,
           message = ''File size (500.00MB) exceeds maximum allowed (50MB)'',
           details = Some [(''actualSize'', DNum 524288000), (''maxSize'', DNum 52428800)]\<rparr>"
  by (simp add: checkFileSize_cases toFixed2MB_examples showInt_numerals)

lemma score_oversized_exe:
  assumes "t < now"
  shows "score (checkDocument defaultConfig now ''malware.exe'' 524288000
           (Some \<lparr>category = None, confidentiality = None, retentionDate = Some (Date t)\<rparr>)) = 0"
proof -
  have "t - now < 0"
    using assms by simp
  then have d: "daysUntil now t < 0"
    unfolding daysUntil_def msPerDay_def by (simp add: div_neg_pos_less0)
  let ?m = "\<lparr>category = None, confidentiality = None, retentionDate = Some (Date t)\<rparr>"
  have s: "sum_list (map deduction (optList (checkFileSize defaultConfig 524288000))) = 40"
    by (simp add: fileSize_500MB optList_def deduction_def)
  have ty: "sum_list (map deduction (optList (checkFileType defaultConfig ''malware.exe''))) = 50"
    by (simp add: fileType_malware_exe optList_def deduction_def)
  have m: "sum_list (map deduction (checkMetadata (Some ?m))) = 10"
    by (simp add: checkMetadata_def truthy_def deduction_def)
  have r: "sum_list (map deduction (optList (retentionIssue now (Some ?m)))) = 30"
    using d by (simp add: retentionIssue_def checkRetention_def Let_def optList_def deduction_def)
  show ?thesis
    by (simp add: checkDocument_score checkDocument_issues s ty m r)
qed

lemma issues_report_no_metadata:
  "issues (checkDocument defaultConfig 0 ''report.pdf'' 1024 None) =
     [\<lparr>type = missing_metadata, severity = Medium,
       message = ''Document has no metadata'', details = None\<rparr>]"
  by (simp add: checkDocument_issues fileType_report_pdf fileSize_small checkMetadata_def
        retentionIssue_def optList_def)

lemma ext_dot_pdf: "extensionOf ''.pdf'' = []"
  by (simp add: ext_defs)

lemma exampleDoc_result:
  "issues (checkDocument defaultConfig 0 (original_filename exampleDoc) (doc_size exampleDoc)
             (metadata exampleDoc)) = []"
  "score (checkDocument defaultConfig 0 (original_filename exampleDoc) (doc_size exampleDoc)
            (metadata exampleDoc)) = 100"
proof -
  show i: "issues (checkDocument defaultConfig 0 (original_filename exampleDoc)
             (doc_size exampleDoc) (metadata exampleDoc)) = []"
    using issues_report_pdf by (simp add: exampleDoc_def completeMetadata_def)
  show "score (checkDocument defaultConfig 0 (original_filename exampleDoc) (doc_size exampleDoc)
            (metadata exampleDoc)) = 100"
    unfolding checkDocument_score i by simp
qed

lemma exampleDb_openTypes: "openTypes exampleDb ''doc-1'' = {link_expired}"
  by (simp add: openTypes_def exampleDb_def)

lemma exampleDb_candidates:
  "appendLinkAndVersion 0 exampleDb exampleDoc [] =
     [\<lparr>type = link_expired, severity = Medium,
       message = ''Secure link will expire in 0 days'',
       details = Some [(''expiryDate'', DIso 0), (''daysUntilExpiry'', DNum 0)]\<rparr>,
      \<lparr>type = version_limit_exceeded, severity = Medium,
       message = ''Document has 51 versions, exceeding the recommended limit of 50'',
       details = Some [(''versionCount'', DNum 51), (''maxVersions'', DNum 50)]\<rparr>]"
proof -
  have d: "secure_link_expiry exampleDoc = Some (Date 0)" "doc_id exampleDoc = ''doc-1''"
    by (simp_all add: exampleDoc_def)
  have v: "document_versions exampleDb = exampleVersions 51 ''doc-1''"
    by (simp add: exampleDb_def)
  show ?thesis
    unfolding appendLinkAndVersion_def Let_def d v
    by (simp add: checkLinkExpiry_now checkVersionCount_51)
qed

lemma exampleDb_run_issues:
  "compliance_issues (fst (runPeriodicCheck defaultConfig 0 exampleDb)) =
     compliance_issues exampleDb @
       [\<lparr>issue_id = 2, document_id = ''doc-1'', issue_type = version_limit_exceeded,
         issue_severity = Medium,
         issue_message = ''Document has 51 versions, exceeding the recommended limit of 50'',
         issue_details = Some [(''versionCount'', DNum 51), (''maxVersions'', DNum 50)],
         issue_status = Open\<rparr>]"
proof -
  have docs: "filter (\<lambda>d. status d = Synced) (documents exampleDb) = [exampleDoc]"
    by (simp add: exampleDb_def exampleDoc_def pendingDoc_def)
  have id: "doc_id exampleDoc = ''doc-1''"
    by (simp add: exampleDoc_def)
  have u: "uuids exampleDb = 2"
    by (simp add: exampleDb_def)
  have "compliance_issues (fst (periodicBody defaultConfig 0 exampleDb exampleDoc)) =
     compliance_issues exampleDb @
       [\<lparr>issue_id = 2, document_id = ''doc-1'', issue_type = version_limit_exceeded,
         issue_severity = Medium,
         issue_message = ''Document has 51 versions, exceeding the recommended limit of 50'',
         issue_details = Some [(''versionCount'', DNum 51), (''maxVersions'', DNum 50)],
         issue_status = Open\<rparr>]"
    unfolding periodicBody_new exampleDoc_result exampleDb_candidates id exampleDb_openTypes
    by (simp add: create_def u)
  then show ?thesis
    by (simp add: runPeriodicCheck_def docs case_prod_beta Let_def)
qed

section \<open>The claims\<close>

subsection \<open>Version count\<close>

text \<open>
  C1, as stated, fails: \<^verbatim>\<open>checkVersionCount\<close> takes a document identifier, not a
  count, and reads the count from the version table, so it is not a function of its two
  arguments alone. With the same identifier and the default maximum it returns an issue
  over a table with 51 versions and none over a table with 50.
\<close>

theorem checkVersionCount_store_counterexample:
  "checkVersionCount (exampleVersions 51 ''doc-1'') ''doc-1'' None \<noteq>
   checkVersionCount (exampleVersions 50 ''doc-1'') ''doc-1'' None"
  by (simp add: checkVersionCount_51 checkVersionCount_50)

text \<open>
  C1, amended: \<^verbatim>\<open>checkVersionCount\<close> takes a document identifier and a maximum
  that defaults to 50, and reads the version count of the document, a non-negative
  integer, from the version table. Its result depends on that count and on the maximum
  only: when the count exceeds the maximum it is one issue of type
  \<^verbatim>\<open>version_limit_exceeded\<close> and severity medium whose message states the count
  and the limit, and otherwise (also when the count equals the maximum) it is no issue.
\<close>

theorem checkVersionCount_count_limit:
  "(getVersionCount vs d > (case mx of None \<Rightarrow> 50 | Some m \<Rightarrow> m) \<longrightarrow>
      (\<exists>i. checkVersionCount vs d mx = Some i
           \<and> type i = version_limit_exceeded \<and> severity i = Medium
           \<and> message i = ''Document has '' @ showInt (getVersionCount vs d)
                @ '' versions, exceeding the recommended limit of ''
                @ showInt (case mx of None \<Rightarrow> 50 | Some m \<Rightarrow> m)))
   \<and> (getVersionCount vs d \<le> (case mx of None \<Rightarrow> 50 | Some m \<Rightarrow> m) \<longrightarrow>
        checkVersionCount vs d mx = None)
   \<and> 0 \<le> getVersionCount vs d
   \<and> checkVersionCount vs d None = checkVersionCount vs d (Some 50)
   \<and> (getVersionCount vs d = getVersionCount vs' d' \<longrightarrow>
        checkVersionCount vs d mx = checkVersionCount vs' d' mx)"
  by (simp add: checkVersionCount_def getVersionCount_def Let_def)

theorem checkVersionCount_count_limit_witness:
  "(\<exists>i. checkVersionCount (exampleVersions 51 ''doc-1'') ''doc-1'' (Some 50) = Some i
        \<and> type i = version_limit_exceeded \<and> severity i = Medium
        \<and> message i = ''Document has 51 versions, exceeding the recommended limit of 50'')
   \<and> checkVersionCount (exampleVersions 50 ''doc-1'') ''doc-1'' (Some 50) = None
   \<and> checkVersionCount (exampleVersions 51 ''doc-1'') ''doc-1'' (Some 50) =
       checkVersionCount (exampleVersions 51 ''doc-2'') ''doc-2'' (Some 50)"
proof -
  have a: "getVersionCount (exampleVersions 51 ''doc-1'') ''doc-1'' > (case Some 50 of None \<Rightarrow> 50 | Some m \<Rightarrow> m)"
    by simp
  have b: "getVersionCount (exampleVersions 50 ''doc-1'') ''doc-1'' \<le> (case Some 50 of None \<Rightarrow> 50 | Some m \<Rightarrow> m)"
    by simp
  have c: "getVersionCount (exampleVersions 51 ''doc-1'') ''doc-1'' =
           getVersionCount (exampleVersions 51 ''doc-2'') ''doc-2''"
    by simp
  from a checkVersionCount_count_limit [where vs = "exampleVersions 51 ''doc-1''" and d = "''doc-1''" and mx = "Some 50"]
  have "\<exists>i. checkVersionCount (exampleVersions 51 ''doc-1'') ''doc-1'' (Some 50) = Some i
        \<and> type i = version_limit_exceeded \<and> severity i = Medium
        \<and> message i = ''Document has 51 versions, exceeding the recommended limit of 50''"
    by (simp add: showInt_numerals)
  moreover from b checkVersionCount_count_limit [where vs = "exampleVersions 50 ''doc-1''" and d = "''doc-1''" and mx = "Some 50"]
  have "checkVersionCount (exampleVersions 50 ''doc-1'') ''doc-1'' (Some 50) = None"
    by blast
  moreover from c checkVersionCount_count_limit [where vs = "exampleVersions 51 ''doc-1''" and d = "''doc-1''"
      and mx = "Some 50" and vs' = "exampleVersions 51 ''doc-2''" and d' = "''doc-2''"]
  have "checkVersionCount (exampleVersions 51 ''doc-1'') ''doc-1'' (Some 50) =
       checkVersionCount (exampleVersions 51 ''doc-2'') ''doc-2'' (Some 50)"
    by blast
  ultimately show ?thesis by blast
qed

subsection \<open>The type check\<close>

text \<open>
  C2, as stated, fails on a filename that begins with its only dot: the text after the
  last \<^verbatim>\<open>.\<close> of \<^verbatim>\<open>.pdf\<close>, lower-cased, is \<^verbatim>\<open>pdf\<close>, which is an
  allowed type, yet the type check reports an issue of severity high, because
  \<^verbatim>\<open>path.extname\<close> gives such a name no extension.
\<close>

theorem dotfile_extension_counterexample:
  "specExtension ''.pdf'' = Some ''pdf''
   \<and> ''pdf'' \<in> set (allowedFileTypes defaultConfig)
   \<and> checkFileType defaultConfig ''.pdf'' =
       Some \<lparr>type = disallowed_file_type, severity = High,
             message = ''File has no extension'',
             details = Some [(''filename'', DStr ''.pdf'')]\<rparr>"
  by (simp add: specExtension_def toLowerCase_def lowerChar_def checkFileType_cases ext_dot_pdf)

text \<open>
  C2, amended: the extension is that of \<^verbatim>\<open>path.extname\<close>, lower-cased, without
  its dot. A filename without \<^verbatim>\<open>.\<close> has no extension; for a filename without
  \<^verbatim>\<open>/\<close> the extension is the text after the last \<^verbatim>\<open>.\<close>, lower-cased,
  unless the last \<^verbatim>\<open>.\<close> is the first character, and then the file has no
  extension; a filename with nothing after its last \<^verbatim>\<open>.\<close> has no extension
  either. A filename with no extension yields one \<^verbatim>\<open>disallowed_file_type\<close> issue
  of severity high, deducting 30; an extension outside \<^verbatim>\<open>allowedFileTypes\<close> yields
  exactly one of severity critical, deducting 50, whose message lists the extension and
  the whole allowed list; an extension in the list yields none.
\<close>

theorem file_type_check:
  "(CHR ''.'' \<notin> set filename \<longrightarrow> extensionOf filename = [])
   \<and> (CHR ''/'' \<notin> set stem \<and> CHR ''/'' \<notin> set e \<and> CHR ''.'' \<notin> set e \<longrightarrow>
        extensionOf (stem @ ''.'' @ e) = (if stem = [] then [] else toLowerCase e))
   \<and> (extensionOf filename = [] \<longrightarrow>
        (\<exists>i. checkFileType cfg filename = Some i
             \<and> type i = disallowed_file_type \<and> severity i = High
             \<and> message i = ''File has no extension''
             \<and> typeStep cfg filename acc = (fst acc @ [i], snd acc - 30)))
   \<and> (extensionOf filename \<noteq> [] \<and> extensionOf filename \<notin> set (allowedFileTypes cfg) \<longrightarrow>
        (\<exists>i. checkFileType cfg filename = Some i
             \<and> type i = disallowed_file_type \<and> severity i = Critical
             \<and> message i = ''File type '' @ [dquote] @ ''.'' @ extensionOf filename @ [dquote]
                              @ '' is not allowed. Allowed types: ''
                              @ join '', '' (allowedFileTypes cfg)
             \<and> typeStep cfg filename acc = (fst acc @ [i], snd acc - 50)))
   \<and> (extensionOf filename \<noteq> [] \<and> extensionOf filename \<in> set (allowedFileTypes cfg) \<longrightarrow>
        checkFileType cfg filename = None \<and> typeStep cfg filename acc = acc)
   \<and> filter (\<lambda>i. type i = disallowed_file_type) (issues (checkDocument cfg now filename sz md)) =
       (case checkFileType cfg filename of None \<Rightarrow> [] | Some i \<Rightarrow> [i])"
proof -
  have a: "CHR ''.'' \<notin> set filename \<longrightarrow> extensionOf filename = []"
    by (simp add: extensionOf_no_dot)
  have b: "CHR ''/'' \<notin> set stem \<and> CHR ''/'' \<notin> set e \<and> CHR ''.'' \<notin> set e \<longrightarrow>
        extensionOf (stem @ ''.'' @ e) = (if stem = [] then [] else toLowerCase e)"
    using extensionOf_plain [of stem e] by blast
  have c: "extensionOf filename = [] \<longrightarrow>
        (\<exists>i. checkFileType cfg filename = Some i
             \<and> type i = disallowed_file_type \<and> severity i = High
             \<and> message i = ''File has no extension''
             \<and> typeStep cfg filename acc = (fst acc @ [i], snd acc - 30))"
    by (simp add: checkFileType_cases typeStep_def)
  have d: "extensionOf filename \<noteq> [] \<and> extensionOf filename \<notin> set (allowedFileTypes cfg) \<longrightarrow>
        (\<exists>i. checkFileType cfg filename = Some i
             \<and> type i = disallowed_file_type \<and> severity i = Critical
             \<and> message i = ''File type '' @ [dquote] @ ''.'' @ extensionOf filename @ [dquote]
                              @ '' is not allowed. Allowed types: ''
                              @ join '', '' (allowedFileTypes cfg)
             \<and> typeStep cfg filename acc = (fst acc @ [i], snd acc - 50))"
    by (simp add: checkFileType_cases typeStep_def)
  have e: "extensionOf filename \<noteq> [] \<and> extensionOf filename \<in> set (allowedFileTypes cfg) \<longrightarrow>
        checkFileType cfg filename = None \<and> typeStep cfg filename acc = acc"
    by (simp add: checkFileType_cases typeStep_def)
  have f: "filter (\<lambda>i. type i = disallowed_file_type)
             (issues (checkDocument cfg now filename sz md)) =
       (case checkFileType cfg filename of None \<Rightarrow> [] | Some i \<Rightarrow> [i])"
    by (simp add: issues_disallowed_file_type optList_def)
  show ?thesis
    by (intro conjI a b c d e f)
qed

theorem file_type_check_witness:
  "extensionOf ''README'' = []
   \<and> extensionOf ''Report.PDF'' = ''pdf''
   \<and> extensionOf ''.pdf'' = []
   \<and> (\<exists>i. checkFileType defaultConfig ''README'' = Some i
          \<and> type i = disallowed_file_type \<and> severity i = High
          \<and> message i = ''File has no extension''
          \<and> typeStep defaultConfig ''README'' ([], 100) = ([i], 70))
   \<and> (\<exists>i. checkFileType defaultConfig ''malware.exe'' = Some i
          \<and> type i = disallowed_file_type \<and> severity i = Critical
          \<and> message i = ''File type '' @ [dquote] @ ''.exe'' @ [dquote] @
               '' is not allowed. Allowed types: pdf, doc, docx, xls, xlsx, ppt, pptx, txt, csv''
          \<and> typeStep defaultConfig ''malware.exe'' ([], 100) = ([i], 50))
   \<and> checkFileType defaultConfig ''Report.PDF'' = None
   \<and> typeStep defaultConfig ''Report.PDF'' ([], 100) = ([], 100)"
proof -
  note t = file_type_check [where cfg = defaultConfig and acc = "([], 100)" and now = 0
      and sz = 0 and md = None]
  have h1: "CHR ''.'' \<notin> set ''README''"
    by simp
  have h2: "CHR ''/'' \<notin> set ''Report'' \<and> CHR ''/'' \<notin> set ''PDF'' \<and> CHR ''.'' \<notin> set ''PDF''"
    by simp
  have h3: "CHR ''/'' \<notin> set '''' \<and> CHR ''/'' \<notin> set ''pdf'' \<and> CHR ''.'' \<notin> set ''pdf''"
    by simp
  have w1: "extensionOf ''README'' = []"
    using t [where filename = "''README''", THEN conjunct1, THEN mp, OF h1] .
  have w2: "extensionOf ''Report.PDF'' = ''pdf''"
    using t [where stem = "''Report''" and e = "''PDF''", THEN conjunct2, THEN conjunct1,
        THEN mp, OF h2]
    by (simp add: toLowerCase_def lowerChar_def)
  have w3: "extensionOf ''.pdf'' = []"
    using t [where stem = "''''" and e = "''pdf''", THEN conjunct2, THEN conjunct1,
        THEN mp, OF h3]
    by simp
  have w4: "\<exists>i. checkFileType defaultConfig ''README'' = Some i
          \<and> type i = disallowed_file_type \<and> severity i = High
          \<and> message i = ''File has no extension''
          \<and> typeStep defaultConfig ''README'' ([], 100) = ([i], 70)"
    using t [where filename = "''README''", THEN conjunct2, THEN conjunct2, THEN conjunct1,
        THEN mp, OF w1]
    by simp
  have h5: "extensionOf ''malware.exe'' \<noteq> []
            \<and> extensionOf ''malware.exe'' \<notin> set (allowedFileTypes defaultConfig)"
    by (simp add: ext_malware_exe)
  have w5: "\<exists>i. checkFileType defaultConfig ''malware.exe'' = Some i
          \<and> type i = disallowed_file_type \<and> severity i = Critical
          \<and> message i = ''File type '' @ [dquote] @ ''.exe'' @ [dquote] @
               '' is not allowed. Allowed types: pdf, doc, docx, xls, xlsx, ppt, pptx, txt, csv''
          \<and> typeStep defaultConfig ''malware.exe'' ([], 100) = ([i], 50)"
    using t [where filename = "''malware.exe''", THEN conjunct2, THEN conjunct2, THEN conjunct2,
        THEN conjunct1, THEN mp, OF h5]
    by (simp add: ext_malware_exe)
  have h6: "extensionOf ''Report.PDF'' \<noteq> []
            \<and> extensionOf ''Report.PDF'' \<in> set (allowedFileTypes defaultConfig)"
    by (simp add: w2)
  note w6 = t [where filename = "''Report.PDF''", THEN conjunct2, THEN conjunct2, THEN conjunct2,
        THEN conjunct2, THEN conjunct1, THEN mp, OF h6]
  show ?thesis
    by (intro conjI w1 w2 w3 w4 w5 w6 [THEN conjunct1] w6 [THEN conjunct2])
qed

subsection \<open>The size check\<close>

text \<open>
  C3: with a non-negative configured limit, as the data model requires, the size check of
  \<^verbatim>\<open>checkDocument\<close> produces no \<^verbatim>\<open>file_too_large\<close> issue for a size
  up to the limit \<^verbatim>\<open>maxFileSizeMB * 1024 * 1024\<close>; exactly one of severity high,
  deducting 25, for a size above the limit and up to twice the limit; and exactly one of
  severity critical, deducting 40, for a size above twice the limit. The message reports
  the size in MB, rounded to the nearest hundredth and printed with two decimals, and
  the configured limit in MB.
\<close>

theorem size_check:
  assumes "0 \<le> maxFileSizeMB cfg"
  shows
  "(sz \<le> maxFileSizeMB cfg * 1024 * 1024 \<longrightarrow>
      checkFileSize cfg sz = None
      \<and> sizeStep cfg sz acc = acc
      \<and> filter (\<lambda>i. type i = file_too_large) (issues (checkDocument cfg now f sz md)) = [])
   \<and> (maxFileSizeMB cfg * 1024 * 1024 < sz \<and> sz \<le> 2 * (maxFileSizeMB cfg * 1024 * 1024) \<longrightarrow>
      (\<exists>i. checkFileSize cfg sz = Some i
           \<and> type i = file_too_large \<and> severity i = High
           \<and> message i = ''File size ('' @ toFixed2MB sz @ ''MB) exceeds maximum allowed (''
                            @ showInt (maxFileSizeMB cfg) @ ''MB)''
           \<and> sizeStep cfg sz acc = (fst acc @ [i], snd acc - 25)
           \<and> filter (\<lambda>i. type i = file_too_large) (issues (checkDocument cfg now f sz md)) = [i]))
   \<and> (sz > 2 * (maxFileSizeMB cfg * 1024 * 1024) \<longrightarrow>
      (\<exists>i. checkFileSize cfg sz = Some i
           \<and> type i = file_too_large \<and> severity i = Critical
           \<and> message i = ''File size ('' @ toFixed2MB sz @ ''MB) exceeds maximum allowed (''
                            @ showInt (maxFileSizeMB cfg) @ ''MB)''
           \<and> sizeStep cfg sz acc = (fst acc @ [i], snd acc - 40)
           \<and> filter (\<lambda>i. type i = file_too_large) (issues (checkDocument cfg now f sz md)) = [i]))
   \<and> (0 \<le> sz \<longrightarrow>
      toFixed2MB sz = showNat (hundredthsOfMB sz div 100) @ ''.''
                        @ [digit (hundredthsOfMB sz div 10 mod 10), digit (hundredthsOfMB sz mod 10)]
      \<and> 2097152 * int (hundredthsOfMB sz) \<le> 200 * sz + 1048576
      \<and> 200 * sz + 1048576 < 2097152 * (int (hundredthsOfMB sz) + 1))"
proof -
  let ?mx = "maxFileSizeMB cfg * 1024 * 1024"
  have mx: "0 \<le> ?mx"
    using assms by simp
  have a: "sz \<le> ?mx \<longrightarrow>
      checkFileSize cfg sz = None
      \<and> sizeStep cfg sz acc = acc
      \<and> filter (\<lambda>i. type i = file_too_large) (issues (checkDocument cfg now f sz md)) = []"
    by (simp add: issues_file_too_large sizeStep_def checkFileSize_cases optList_def)
  have b: "?mx < sz \<and> sz \<le> 2 * ?mx \<longrightarrow>
      (\<exists>i. checkFileSize cfg sz = Some i
           \<and> type i = file_too_large \<and> severity i = High
           \<and> message i = ''File size ('' @ toFixed2MB sz @ ''MB) exceeds maximum allowed (''
                            @ showInt (maxFileSizeMB cfg) @ ''MB)''
           \<and> sizeStep cfg sz acc = (fst acc @ [i], snd acc - 25)
           \<and> filter (\<lambda>i. type i = file_too_large) (issues (checkDocument cfg now f sz md)) = [i])"
    by (simp add: issues_file_too_large sizeStep_def checkFileSize_cases optList_def)
  have "sz > 2 * ?mx \<Longrightarrow> \<not> sz \<le> ?mx"
    using mx by linarith
  then have c: "sz > 2 * ?mx \<longrightarrow>
      (\<exists>i. checkFileSize cfg sz = Some i
           \<and> type i = file_too_large \<and> severity i = Critical
           \<and> message i = ''File size ('' @ toFixed2MB sz @ ''MB) exceeds maximum allowed (''
                            @ showInt (maxFileSizeMB cfg) @ ''MB)''
           \<and> sizeStep cfg sz acc = (fst acc @ [i], snd acc - 40)
           \<and> filter (\<lambda>i. type i = file_too_large) (issues (checkDocument cfg now f sz md)) = [i])"
    by (simp add: issues_file_too_large sizeStep_def checkFileSize_cases optList_def)
  have d: "0 \<le> sz \<longrightarrow>
      toFixed2MB sz = showNat (hundredthsOfMB sz div 100) @ ''.''
                        @ [digit (hundredthsOfMB sz div 10 mod 10), digit (hundredthsOfMB sz mod 10)]
      \<and> 2097152 * int (hundredthsOfMB sz) \<le> 200 * sz + 1048576
      \<and> 200 * sz + 1048576 < 2097152 * (int (hundredthsOfMB sz) + 1)"
    using hundredthsOfMB_rounds [of sz] by (simp add: toFixed2MB_def Let_def)
  from a b c d show ?thesis
    by blast
qed

theorem size_check_witness:
  "checkFileSize defaultConfig 52428800 = None
   \<and> sizeStep defaultConfig 52428800 ([], 100) = ([], 100)
   \<and> (\<exists>i. checkFileSize defaultConfig 104857600 = Some i
          \<and> type i = file_too_large \<and> severity i = High
          \<and> message i = ''File size (100.00MB) exceeds maximum allowed (50MB)''
          \<and> sizeStep defaultConfig 104857600 ([], 100) = ([i], 75)
          \<and> filter (\<lambda>i. type i = file_too_large)
               (issues (checkDocument defaultConfig 0 ''report.pdf'' 104857600 None)) = [i])
   \<and> (\<exists>i. checkFileSize defaultConfig 104857601 = Some i
          \<and> type i = file_too_large \<and> severity i = Critical
          \<and> message i = ''File size (100.00MB) exceeds maximum allowed (50MB)''
          \<and> sizeStep defaultConfig 104857601 ([], 100) = ([i], 60)
          \<and> filter (\<lambda>i. type i = file_too_large)
               (issues (checkDocument defaultConfig 0 ''report.pdf'' 104857601 None)) = [i])
   \<and> toFixed2MB 131072 = ''0.13''"
proof -
  have h: "0 \<le> maxFileSizeMB defaultConfig"
    by simp
  have ha: "(52428800::int) \<le> maxFileSizeMB defaultConfig * 1024 * 1024"
    by simp
  have hb: "maxFileSizeMB defaultConfig * 1024 * 1024 < (104857600::int)
            \<and> (104857600::int) \<le> 2 * (maxFileSizeMB defaultConfig * 1024 * 1024)"
    by simp
  have hc: "(104857601::int) > 2 * (maxFileSizeMB defaultConfig * 1024 * 1024)"
    by simp
  have hd: "(0::int) \<le> 131072"
    by simp
  note a0 = size_check [OF h, where sz = 52428800 and acc = "([], 100)" and now = 0
      and f = "''report.pdf''" and md = None, THEN conjunct1, THEN mp, OF ha]
  note b0 = size_check [OF h, where sz = 104857600 and acc = "([], 100)" and now = 0
      and f = "''report.pdf''" and md = None, THEN conjunct2, THEN conjunct1, THEN mp, OF hb]
  note c0 = size_check [OF h, where sz = 104857601 and acc = "([], 100)" and now = 0
      and f = "''report.pdf''" and md = None,
      THEN conjunct2, THEN conjunct2, THEN conjunct1, THEN mp, OF hc]
  note d0 = size_check [OF h, where sz = 131072 and acc = "([], 100)" and now = 0
      and f = "''report.pdf''" and md = None,
      THEN conjunct2, THEN conjunct2, THEN conjunct2, THEN mp, OF hd, THEN conjunct1]
  have a1: "checkFileSize defaultConfig 52428800 = None"
    using a0 by (rule conjunct1)
  have a2: "sizeStep defaultConfig 52428800 ([], 100) = ([], 100)"
    using a0 by simp
  have b: "\<exists>i. checkFileSize defaultConfig 104857600 = Some i
          \<and> type i = file_too_large \<and> severity i = High
          \<and> message i = ''File size (100.00MB) exceeds maximum allowed (50MB)''
          \<and> sizeStep defaultConfig 104857600 ([], 100) = ([i], 75)
          \<and> filter (\<lambda>i. type i = file_too_large)
               (issues (checkDocument defaultConfig 0 ''report.pdf'' 104857600 None)) = [i]"
    using b0 by (simp add: toFixed2MB_examples showInt_numerals)
  have c: "\<exists>i. checkFileSize defaultConfig 104857601 = Some i
          \<and> type i = file_too_large \<and> severity i = Critical
          \<and> message i = ''File size (100.00MB) exceeds maximum allowed (50MB)''
          \<and> sizeStep defaultConfig 104857601 ([], 100) = ([i], 60)
          \<and> filter (\<lambda>i. type i = file_too_large)
               (issues (checkDocument defaultConfig 0 ''report.pdf'' 104857601 None)) = [i]"
    using c0 by (simp add: toFixed2MB_examples showInt_numerals)
  have d: "toFixed2MB 131072 = ''0.13''"
    using d0 by (simp add: hundredthsOfMB_def showNat.simps digit_def)
  show ?thesis
    by (intro conjI a1 a2 b c d)
qed

subsection \<open>The score\<close>

text \<open>
  C4: for every input of \<^verbatim>\<open>checkDocument\<close> the score is
  \<open>max 0 (100 - d)\<close>, where \<open>d\<close> is the sum of the deductions of the produced issues.
  It is an integer between 0 and 100. It does not increase as issues are added: no block
  of the evaluation raises the running score, and a result whose issues include those of
  another result has a score that is not larger. It is never negative: an oversized
  file of a disallowed type whose metadata has neither category nor confidentiality and
  an expired retention date scores 0.
\<close>

theorem score_bounded_and_monotone:
  "score (checkDocument cfg now f sz md) =
     max 0 (100 - sum_list (map deduction (issues (checkDocument cfg now f sz md))))
   \<and> 0 \<le> score (checkDocument cfg now f sz md)
   \<and> score (checkDocument cfg now f sz md) \<le> 100
   \<and> (mset (issues (checkDocument cfg now f sz md))
          \<subseteq># mset (issues (checkDocument cfg' now' f' sz' md')) \<longrightarrow>
        score (checkDocument cfg' now' f' sz' md') \<le> score (checkDocument cfg now f sz md))
   \<and> snd (sizeStep cfg sz acc) \<le> snd acc
   \<and> snd (typeStep cfg f acc) \<le> snd acc
   \<and> snd (metadataStep md acc) \<le> snd acc
   \<and> snd (retentionStep now md acc) \<le> snd acc
   \<and> (t < now \<longrightarrow>
        score (checkDocument defaultConfig now ''malware.exe'' 524288000
           (Some \<lparr>category = None, confidentiality = None, retentionDate = Some (Date t)\<rparr>)) = 0)"
proof -
  let ?r = "checkDocument cfg now f sz md"
  let ?r' = "checkDocument cfg' now' f' sz' md'"
  have a: "score ?r = max 0 (100 - sum_list (map deduction (issues ?r)))"
    by (rule checkDocument_score)
  have b: "0 \<le> score ?r"
    by (simp add: a)
  have c: "score ?r \<le> 100"
    using sum_deduction_nonneg [of "issues ?r"] by (simp add: a)
  have d: "mset (issues ?r) \<subseteq># mset (issues ?r') \<longrightarrow> score ?r' \<le> score ?r"
  proof
    assume "mset (issues ?r) \<subseteq># mset (issues ?r')"
    then have "sum_list (map deduction (issues ?r)) \<le> sum_list (map deduction (issues ?r'))"
      by (rule sum_deduction_mono)
    then show "score ?r' \<le> score ?r"
      unfolding checkDocument_score by linarith
  qed
  have e: "t < now \<longrightarrow>
        score (checkDocument defaultConfig now ''malware.exe'' 524288000
           (Some \<lparr>category = None, confidentiality = None, retentionDate = Some (Date t)\<rparr>)) = 0"
    by (simp add: score_oversized_exe)
  show ?thesis
    by (intro conjI a b c d e steps_nonincreasing)
qed

theorem score_bounded_and_monotone_witness:
  "mset (issues (checkDocument defaultConfig 0 ''report.pdf'' 1024 None))
     \<subseteq># mset (issues (checkDocument defaultConfig 0 ''malware.exe'' 1024 None))
   \<and> score (checkDocument defaultConfig 0 ''malware.exe'' 1024 None)
       \<le> score (checkDocument defaultConfig 0 ''report.pdf'' 1024 None)
   \<and> score (checkDocument defaultConfig 0 ''report.pdf'' 1024 None) = 95
   \<and> score (checkDocument defaultConfig 0 ''malware.exe'' 1024 None) = 45
   \<and> score (checkDocument defaultConfig 1 ''malware.exe'' 524288000
        (Some \<lparr>category = None, confidentiality = None, retentionDate = Some (Date 0)\<rparr>)) = 0"
proof -
  note t = score_bounded_and_monotone [where cfg = defaultConfig and now = 0
      and f = "''report.pdf''" and sz = 1024 and md = None
      and cfg' = defaultConfig and now' = 0 and f' = "''malware.exe''" and sz' = 1024
      and md' = None]
  note t' = score_bounded_and_monotone [where cfg = defaultConfig and now = 0
      and f = "''malware.exe''" and sz = 1024 and md = None]
  note u = score_bounded_and_monotone [where t = 0 and now = 1]
  have h: "mset (issues (checkDocument defaultConfig 0 ''report.pdf'' 1024 None))
     \<subseteq># mset (issues (checkDocument defaultConfig 0 ''malware.exe'' 1024 None))"
    by (simp add: issues_report_no_metadata issues_malware_exe)
  have a: "score (checkDocument defaultConfig 0 ''malware.exe'' 1024 None)
       \<le> score (checkDocument defaultConfig 0 ''report.pdf'' 1024 None)"
    using t [THEN conjunct2, THEN conjunct2, THEN conjunct2, THEN conjunct1, THEN mp, OF h] .
  have b: "score (checkDocument defaultConfig 0 ''report.pdf'' 1024 None) = 95"
    using t [THEN conjunct1] by (simp add: issues_report_no_metadata deduction_def)
  have c: "score (checkDocument defaultConfig 0 ''malware.exe'' 1024 None) = 45"
    using t' [THEN conjunct1]
    by (simp add: issues_malware_exe fileType_malware_exe deduction_def)
  have l: "(0::int) < 1"
    by simp
  have d: "score (checkDocument defaultConfig 1 ''malware.exe'' 524288000
        (Some \<lparr>category = None, confidentiality = None, retentionDate = Some (Date 0)\<rparr>)) = 0"
    using u [THEN conjunct2, THEN conjunct2, THEN conjunct2, THEN conjunct2, THEN conjunct2,
        THEN conjunct2, THEN conjunct2, THEN conjunct2, THEN mp, OF l] .
  show ?thesis
    by (intro conjI h a b c d)
qed

subsection \<open>The verdict\<close>

text \<open>
  C5: for every input of \<^verbatim>\<open>checkDocument\<close> the flag \<^verbatim>\<open>passed\<close> is
  false if and only if some produced issue has severity critical; in particular it is
  true when no issue is produced.
\<close>

theorem checkDocument_passed_iff:
  "(passed (checkDocument cfg now f sz md) = False \<longleftrightarrow>
      (\<exists>i \<in> set (issues (checkDocument cfg now f sz md)). severity i = Critical))
   \<and> (issues (checkDocument cfg now f sz md) = [] \<longrightarrow> passed (checkDocument cfg now f sz md))"
  by (auto simp: checkDocument_passed noCritical_def)

theorem checkDocument_passed_iff_witness:
  "issues (checkDocument defaultConfig 0 ''report.pdf'' 1048576
      (Some \<lparr>category = Some ''contracts'', confidentiality = Some ''internal'',
             retentionDate = None\<rparr>)) = []
   \<and> passed (checkDocument defaultConfig 0 ''report.pdf'' 1048576
      (Some \<lparr>category = Some ''contracts'', confidentiality = Some ''internal'',
             retentionDate = None\<rparr>))
   \<and> (\<exists>i \<in> set (issues (checkDocument defaultConfig 0 ''malware.exe'' 1024 None)).
         severity i = Critical)
   \<and> passed (checkDocument defaultConfig 0 ''malware.exe'' 1024 None) = False"
proof -
  let ?ok = "checkDocument defaultConfig 0 ''report.pdf'' 1048576
      (Some \<lparr>category = Some ''contracts'', confidentiality = Some ''internal'',
             retentionDate = None\<rparr>)"
  let ?bad = "checkDocument defaultConfig 0 ''malware.exe'' 1024 None"
  have e: "issues ?ok = []"
    by (rule issues_report_pdf)
  have c: "\<exists>i \<in> set (issues ?bad). severity i = Critical"
    by (simp add: issues_malware_exe fileType_malware_exe)
  have p: "passed ?ok"
    using checkDocument_passed_iff [of defaultConfig 0 "''report.pdf''" 1048576
      "Some \<lparr>category = Some ''contracts'', confidentiality = Some ''internal'',
             retentionDate = None\<rparr>"] e by blast
  have q: "passed ?bad = False"
    using checkDocument_passed_iff [of defaultConfig 0 "''malware.exe''" 1024 None] c by blast
  from e p c q show ?thesis by blast
qed

subsection \<open>The metadata check\<close>

text \<open>
  C6: without metadata the metadata check produces exactly one issue, of type
  \<^verbatim>\<open>missing_metadata\<close> and severity medium, without details. With metadata it
  produces an issue of severity low with \<^verbatim>\<open>missingField = "category"\<close> exactly when
  the category is absent or empty, followed by an issue of severity medium with
  \<^verbatim>\<open>missingField = "confidentiality"\<close> exactly when the confidentiality is absent
  or empty, each independently of the other. Every metadata issue deducts exactly 5.
\<close>

theorem metadata_check:
  "checkMetadata None =
     [\<lparr>type = missing_metadata, severity = Medium,
       message = ''Document has no metadata'', details = None\<rparr>]
   \<and> checkMetadata (Some m) =
       (if category m = None \<or> category m = Some [] then
          [\<lparr>type = missing_metadata, severity = Low,
            message = ''Document is missing category'',
            details = Some [(''missingField'', DStr ''category'')]\<rparr>]
        else [])
       @
       (if confidentiality m = None \<or> confidentiality m = Some [] then
          [\<lparr>type = missing_metadata, severity = Medium,
            message = ''Document is missing confidentiality classification'',
            details = Some [(''missingField'', DStr ''confidentiality'')]\<rparr>]
        else [])
   \<and> metadataStep md acc =
       (fst acc @ checkMetadata md, snd acc - 5 * int (length (checkMetadata md)))
   \<and> (\<forall>i \<in> set (checkMetadata md). type i = missing_metadata \<and> deduction i = 5)
   \<and> filter (\<lambda>i. type i = missing_metadata) (issues (checkDocument cfg now f sz md)) =
       checkMetadata md"
proof -
  have a: "checkMetadata None =
     [\<lparr>type = missing_metadata, severity = Medium,
       message = ''Document has no metadata'', details = None\<rparr>]"
    by (simp add: checkMetadata_def)
  have b: "checkMetadata (Some m) =
       (if category m = None \<or> category m = Some [] then
          [\<lparr>type = missing_metadata, severity = Low,
            message = ''Document is missing category'',
            details = Some [(''missingField'', DStr ''category'')]\<rparr>]
        else [])
       @
       (if confidentiality m = None \<or> confidentiality m = Some [] then
          [\<lparr>type = missing_metadata, severity = Medium,
            message = ''Document is missing confidentiality classification'',
            details = Some [(''missingField'', DStr ''confidentiality'')]\<rparr>]
        else [])"
    by (simp add: checkMetadata_def truthy_def split: option.splits)
  have "sum_list (map deduction xs) = 5 * int (length xs)"
    if "\<And>i. i \<in> set xs \<Longrightarrow> deduction i = 5" for xs
    using that by (induction xs) auto
  then have "sum_list (map deduction (checkMetadata md)) = 5 * int (length (checkMetadata md))"
    by (simp add: metadata_deduction)
  then have c: "metadataStep md acc =
       (fst acc @ checkMetadata md, snd acc - 5 * int (length (checkMetadata md)))"
    by (simp add: metadataStep_eq)
  have d: "\<forall>i \<in> set (checkMetadata md). type i = missing_metadata \<and> deduction i = 5"
    using checkMetadata_type metadata_deduction by blast
  from a b c d issues_missing_metadata [of cfg now f sz md] show ?thesis
    by blast
qed

theorem metadata_check_witness:
  "checkMetadata (Some \<lparr>category = Some [], confidentiality = None, retentionDate = None\<rparr>) =
     [\<lparr>type = missing_metadata, severity = Low, message = ''Document is missing category'',
       details = Some [(''missingField'', DStr ''category'')]\<rparr>,
      \<lparr>type = missing_metadata, severity = Medium,
       message = ''Document is missing confidentiality classification'',
       details = Some [(''missingField'', DStr ''confidentiality'')]\<rparr>]
   \<and> metadataStep (Some \<lparr>category = Some [], confidentiality = None, retentionDate = None\<rparr>)
        ([], 100) =
       (checkMetadata (Some \<lparr>category = Some [], confidentiality = None, retentionDate = None\<rparr>),
        90)
   \<and> type \<lparr>type = missing_metadata, severity = Low, message = ''Document is missing category'',
            details = Some [(''missingField'', DStr ''category'')]\<rparr> = missing_metadata
   \<and> deduction \<lparr>type = missing_metadata, severity = Low,
                 message = ''Document is missing category'',
                 details = Some [(''missingField'', DStr ''category'')]\<rparr> = 5"
proof -
  let ?m = "\<lparr>category = Some [], confidentiality = None, retentionDate = None\<rparr>"
  let ?c = "\<lparr>type = missing_metadata, severity = Low, message = ''Document is missing category'',
            details = Some [(''missingField'', DStr ''category'')]\<rparr>"
  note t = metadata_check [where m = ?m and md = "Some ?m" and acc = "([], 100)"
      and cfg = defaultConfig and now = 0 and f = "''report.pdf''" and sz = 0]
  have a: "checkMetadata (Some ?m) =
     [?c,
      \<lparr>type = missing_metadata, severity = Medium,
       message = ''Document is missing confidentiality classification'',
       details = Some [(''missingField'', DStr ''confidentiality'')]\<rparr>]"
    using t [THEN conjunct2, THEN conjunct1] by simp
  have b: "metadataStep (Some ?m) ([], 100) = (checkMetadata (Some ?m), 90)"
    using t [THEN conjunct2, THEN conjunct2, THEN conjunct1] by (simp add: a)
  have m: "?c \<in> set (checkMetadata (Some ?m))"
    by (simp add: a)
  have c: "type ?c = missing_metadata \<and> deduction ?c = 5"
    using t [THEN conjunct2, THEN conjunct2, THEN conjunct2, THEN conjunct1] m by (rule bspec)
  show ?thesis
    by (intro conjI a b c [THEN conjunct1] c [THEN conjunct2])
qed

subsection \<open>The retention check\<close>

text \<open>
  C7: the retention check leaves issues and score alone when the metadata or its
  retention date is absent. Otherwise, with \<open>days\<close> the floor of the difference between
  the retention date and now in days: for \<open>days < 0\<close> it appends one
  \<^verbatim>\<open>expired_document\<close> issue of severity critical whose message states
  \<open>- days\<close>, and deducts 30; for \<open>0 \<le> days \<le> 30\<close> it appends one
  \<^verbatim>\<open>retention_policy_violation\<close> issue of severity high whose message states
  \<open>days\<close>, and deducts 20; for \<open>days > 30\<close> it does nothing.
\<close>

theorem retention_check:
  "((md = None \<or> (\<exists>m. md = Some m \<and> retentionDate m = None)) \<longrightarrow>
      retentionStep now md acc = acc)
   \<and> (md = Some m \<and> retentionDate m = Some (Date t) \<longrightarrow>
        86400000 * daysUntil now t \<le> t - now \<and> t - now < 86400000 * (daysUntil now t + 1)
      \<and> (daysUntil now t < 0 \<longrightarrow>
            retentionStep now md acc =
              (fst acc @
                 [\<lparr>type = expired_document, severity = Critical,
                   message = ''Document has expired (expired '' @ showInt (- daysUntil now t)
                               @ '' days ago)'',
                   details = Some [(''retentionDate'', DIso t),
                                   (''daysExpired'', DNum (- daysUntil now t))]\<rparr>],
               snd acc - 30))
      \<and> (0 \<le> daysUntil now t \<and> daysUntil now t \<le> 30 \<longrightarrow>
            retentionStep now md acc =
              (fst acc @
                 [\<lparr>type = retention_policy_violation, severity = High,
                   message = ''Document will expire in '' @ showInt (daysUntil now t) @ '' days'',
                   details = Some [(''retentionDate'', DIso t),
                                   (''daysUntilExpiry'', DNum (daysUntil now t))]\<rparr>],
               snd acc - 20))
      \<and> (daysUntil now t > 30 \<longrightarrow> retentionStep now md acc = acc))
   \<and> fst (retentionStep now md acc) =
       fst acc @ filter (\<lambda>i. type i = expired_document \<or> type i = retention_policy_violation)
                   (issues (checkDocument cfg now f sz md))"
proof -
  have a: "(md = None \<or> (\<exists>m. md = Some m \<and> retentionDate m = None)) \<longrightarrow>
      retentionStep now md acc = acc"
    by (auto simp: retentionStep_def)
  have b: "md = Some m \<and> retentionDate m = Some (Date t) \<longrightarrow>
        86400000 * daysUntil now t \<le> t - now \<and> t - now < 86400000 * (daysUntil now t + 1)
      \<and> (daysUntil now t < 0 \<longrightarrow>
            retentionStep now md acc =
              (fst acc @
                 [\<lparr>type = expired_document, severity = Critical,
                   message = ''Document has expired (expired '' @ showInt (- daysUntil now t)
                               @ '' days ago)'',
                   details = Some [(''retentionDate'', DIso t),
                                   (''daysExpired'', DNum (- daysUntil now t))]\<rparr>],
               snd acc - 30))
      \<and> (0 \<le> daysUntil now t \<and> daysUntil now t \<le> 30 \<longrightarrow>
            retentionStep now md acc =
              (fst acc @
                 [\<lparr>type = retention_policy_violation, severity = High,
                   message = ''Document will expire in '' @ showInt (daysUntil now t) @ '' days'',
                   details = Some [(''retentionDate'', DIso t),
                                   (''daysUntilExpiry'', DNum (daysUntil now t))]\<rparr>],
               snd acc - 20))
      \<and> (daysUntil now t > 30 \<longrightarrow> retentionStep now md acc = acc)"
    using daysUntil_floor(2,3) [where now = now and t = t]
    by (simp add: retentionStep_def checkRetention_def Let_def)
  have c: "fst (retentionStep now md acc) =
       fst acc @ filter (\<lambda>i. type i = expired_document \<or> type i = retention_policy_violation)
                   (issues (checkDocument cfg now f sz md))"
    by (simp add: retentionStep_eq issues_retention)
  from a b c show ?thesis
    by (intro conjI)
qed

theorem retention_check_witness:
  "retentionStep 0 None ([], 100) = ([], 100)
   \<and> retentionStep 0 (Some (completeMetadata\<lparr>retentionDate := Some (Date (- 1))\<rparr>)) ([], 100) =
       ([\<lparr>type = expired_document, severity = Critical,
          message = ''Document has expired (expired 1 days ago)'',
          details = Some [(''retentionDate'', DIso (- 1)), (''daysExpired'', DNum 1)]\<rparr>], 70)
   \<and> retentionStep 0 (Some (completeMetadata\<lparr>retentionDate := Some (Date 1296000000)\<rparr>))
        ([], 100) =
       ([\<lparr>type = retention_policy_violation, severity = High,
          message = ''Document will expire in 15 days'',
          details = Some [(''retentionDate'', DIso 1296000000),
                          (''daysUntilExpiry'', DNum 15)]\<rparr>], 80)
   \<and> retentionStep 0 (Some (completeMetadata\<lparr>retentionDate := Some (Date 2678400000)\<rparr>))
        ([], 100) = ([], 100)"
proof -
  have ha: "(None :: DocumentMetadata option) = None \<or>
            (\<exists>m. (None :: DocumentMetadata option) = Some m \<and> retentionDate m = None)"
    by simp
  have hm: "Some (completeMetadata\<lparr>retentionDate := Some (Date t)\<rparr>) =
              Some (completeMetadata\<lparr>retentionDate := Some (Date t)\<rparr>)
            \<and> retentionDate (completeMetadata\<lparr>retentionDate := Some (Date t)\<rparr>) = Some (Date t)"
    for t by simp
  note t = retention_check [where now = 0 and acc = "([], 100)" and cfg = defaultConfig
      and f = "''report.pdf''" and sz = 0]
  have a: "retentionStep 0 None ([], 100) = ([], 100)"
    using t [where md = None, THEN conjunct1, THEN mp, OF ha] .
  have b: "retentionStep 0 (Some (completeMetadata\<lparr>retentionDate := Some (Date (- 1))\<rparr>))
        ([], 100) =
       ([\<lparr>type = expired_document, severity = Critical,
          message = ''Document has expired (expired 1 days ago)'',
          details = Some [(''retentionDate'', DIso (- 1)), (''daysExpired'', DNum 1)]\<rparr>], 70)"
    using t [where md = "Some (completeMetadata\<lparr>retentionDate := Some (Date (- 1))\<rparr>)"
        and m = "completeMetadata\<lparr>retentionDate := Some (Date (- 1))\<rparr>" and t = "- 1",
        THEN conjunct2, THEN conjunct1, THEN mp, OF hm]
    by (simp add: daysUntil_examples showInt_numerals)
  have c: "retentionStep 0 (Some (completeMetadata\<lparr>retentionDate := Some (Date 1296000000)\<rparr>))
        ([], 100) =
       ([\<lparr>type = retention_policy_violation, severity = High,
          message = ''Document will expire in 15 days'',
          details = Some [(''retentionDate'', DIso 1296000000),
                          (''daysUntilExpiry'', DNum 15)]\<rparr>], 80)"
    using t [where md = "Some (completeMetadata\<lparr>retentionDate := Some (Date 1296000000)\<rparr>)"
        and m = "completeMetadata\<lparr>retentionDate := Some (Date 1296000000)\<rparr>"
        and t = 1296000000,
        THEN conjunct2, THEN conjunct1, THEN mp, OF hm]
    by (simp add: daysUntil_examples showInt_more)
  have d: "retentionStep 0 (Some (completeMetadata\<lparr>retentionDate := Some (Date 2678400000)\<rparr>))
        ([], 100) = ([], 100)"
    using t [where md = "Some (completeMetadata\<lparr>retentionDate := Some (Date 2678400000)\<rparr>)"
        and m = "completeMetadata\<lparr>retentionDate := Some (Date 2678400000)\<rparr>"
        and t = 2678400000,
        THEN conjunct2, THEN conjunct1, THEN mp, OF hm]
    by (simp add: daysUntil_examples)
  show ?thesis
    by (intro conjI a b c d)
qed

subsection \<open>The link expiry check\<close>

text \<open>
  C8, as stated, fails for an expired link: the message of the issue of severity high is
  the fixed text \<^verbatim>\<open>Secure link has expired\<close>, the same one day and five days after
  the expiry; the number of days is recorded in the details only.
\<close>

theorem link_expiry_message_counterexample:
  "checkLinkExpiry 86400000 (Some (Date 0)) =
     Some \<lparr>type = link_expired, severity = High,
           message = ''Secure link has expired'',
           details = Some [(''expiryDate'', DIso 0), (''daysExpired'', DNum 1)]\<rparr>
   \<and> checkLinkExpiry 432000000 (Some (Date 0)) =
     Some \<lparr>type = link_expired, severity = High,
           message = ''Secure link has expired'',
           details = Some [(''expiryDate'', DIso 0), (''daysExpired'', DNum 5)]\<rparr>"
  by (simp add: checkLinkExpiry_def daysUntil_def msPerDay_def)

text \<open>
  C8, amended: \<^verbatim>\<open>checkLinkExpiry\<close> returns no issue without an expiry date.
  Otherwise, with \<open>days\<close> the floor of the days until the expiry: for \<open>days < 0\<close> it
  returns one \<^verbatim>\<open>link_expired\<close> issue of severity high whose message is
  \<^verbatim>\<open>Secure link has expired\<close> and whose details state the days expired; for
  \<open>0 \<le> days \<le> 7\<close> it returns one \<^verbatim>\<open>link_expired\<close> issue of severity medium whose
  message states the days remaining; for \<open>days > 7\<close> it returns no issue. An expiry of
  exactly now gives the issue of severity medium with 0 days.
\<close>

theorem link_expiry_check:
  "checkLinkExpiry now None = None
   \<and> 86400000 * daysUntil now t \<le> t - now \<and> t - now < 86400000 * (daysUntil now t + 1)
   \<and> (daysUntil now t < 0 \<longrightarrow>
        checkLinkExpiry now (Some (Date t)) =
          Some \<lparr>type = link_expired, severity = High,
                message = ''Secure link has expired'',
                details = Some [(''expiryDate'', DIso t),
                                (''daysExpired'', DNum (- daysUntil now t))]\<rparr>)
   \<and> (0 \<le> daysUntil now t \<and> daysUntil now t \<le> 7 \<longrightarrow>
        checkLinkExpiry now (Some (Date t)) =
          Some \<lparr>type = link_expired, severity = Medium,
                message = ''Secure link will expire in '' @ showInt (daysUntil now t) @ '' days'',
                details = Some [(''expiryDate'', DIso t),
                                (''daysUntilExpiry'', DNum (daysUntil now t))]\<rparr>)
   \<and> (daysUntil now t > 7 \<longrightarrow> checkLinkExpiry now (Some (Date t)) = None)
   \<and> checkLinkExpiry now (Some (Date now)) =
        Some \<lparr>type = link_expired, severity = Medium,
              message = ''Secure link will expire in 0 days'',
              details = Some [(''expiryDate'', DIso now), (''daysUntilExpiry'', DNum 0)]\<rparr>"
proof -
  have z: "daysUntil now now = 0"
    by (simp add: daysUntil_def)
  show ?thesis
    using daysUntil_floor(2,3) [where now = now and t = t]
    by (simp add: checkLinkExpiry_def Let_def z showInt_numerals)
qed

theorem link_expiry_check_witness:
  "checkLinkExpiry 1000 (Some (Date 999)) =
     Some \<lparr>type = link_expired, severity = High, message = ''Secure link has expired'',
           details = Some [(''expiryDate'', DIso 999), (''daysExpired'', DNum 1)]\<rparr>
   \<and> checkLinkExpiry 0 (Some (Date 604800000)) =
     Some \<lparr>type = link_expired, severity = Medium,
           message = ''Secure link will expire in 7 days'',
           details = Some [(''expiryDate'', DIso 604800000), (''daysUntilExpiry'', DNum 7)]\<rparr>
   \<and> checkLinkExpiry 0 (Some (Date 691200000)) = None"
proof -
  have a: "checkLinkExpiry 1000 (Some (Date 999)) =
     Some \<lparr>type = link_expired, severity = High, message = ''Secure link has expired'',
           details = Some [(''expiryDate'', DIso 999), (''daysExpired'', DNum 1)]\<rparr>"
    using link_expiry_check [where now = 1000 and t = 999]
    by (simp add: daysUntil_examples)
  have b: "checkLinkExpiry 0 (Some (Date 604800000)) =
     Some \<lparr>type = link_expired, severity = Medium,
           message = ''Secure link will expire in 7 days'',
           details = Some [(''expiryDate'', DIso 604800000), (''daysUntilExpiry'', DNum 7)]\<rparr>"
    using link_expiry_check [where now = 0 and t = 604800000]
    by (simp add: daysUntil_examples showInt_more)
  have c: "checkLinkExpiry 0 (Some (Date 691200000)) = None"
    using link_expiry_check [where now = 0 and t = 691200000]
    by (simp add: daysUntil_examples)
  show ?thesis
    by (intro conjI a b c)
qed

subsection \<open>The periodic check\<close>

text \<open>
  C9: in the periodic check, for every processed document the issues created are those
  of the result, with the link and version issues appended, whose type is not among the
  types of the document's open issues; over a whole run no created issue has a type
  that was open for its document. The score written back for a synced document is the
  score that \<^verbatim>\<open>checkDocument\<close> computed from its filename, size and metadata, so
  the appended link and version issues never change it; with document identifiers
  distinct, as the primary key makes them, the run overwrites exactly the scores of the
  synced documents.
\<close>

theorem periodic_check_persists:
  assumes "distinct (map doc_id (documents db))"
  shows
  "(\<exists>created.
      compliance_issues (fst (runPeriodicCheck cfg now db)) = compliance_issues db @ created
      \<and> (\<forall>r \<in> set created. issue_type r \<notin> openTypes db (document_id r)
                             \<and> issue_status r = Open)
      \<and> issuesFound (snd (runPeriodicCheck cfg now db)) = length created)
   \<and> documents (fst (runPeriodicCheck cfg now db)) =
       map (\<lambda>d. if status d = Synced
                then d\<lparr>compliance_score :=
                         score (checkDocument cfg now (original_filename d) (doc_size d)
                                  (metadata d))\<rparr>
                else d)
         (documents db)
   \<and> checked (snd (runPeriodicCheck cfg now db)) =
       length (filter (\<lambda>d. status d = Synced) (documents db))
   \<and> (\<exists>created.
        compliance_issues (fst (periodicBody cfg now db doc)) = compliance_issues db @ created
        \<and> map issue_type created =
            filter (\<lambda>t. t \<notin> openTypes db (doc_id doc))
              (map type (appendLinkAndVersion now db doc
                 (issues (checkDocument cfg now (original_filename doc) (doc_size doc)
                            (metadata doc)))))
        \<and> (\<forall>r \<in> set created. document_id r = doc_id doc \<and> issue_status r = Open)
        \<and> snd (periodicBody cfg now db doc) = length created)
   \<and> documents (fst (periodicBody cfg now db doc)) =
       map (\<lambda>d. if doc_id d = doc_id doc
                then d\<lparr>compliance_score :=
                         score (checkDocument cfg now (original_filename doc) (doc_size doc)
                                  (metadata doc))\<rparr>
                else d)
         (documents db)"
proof -
  have c: "checked (snd (runPeriodicCheck cfg now db)) =
       length (filter (\<lambda>d. status d = Synced) (documents db))"
    by (simp add: runPeriodicCheck_def Let_def)
  show ?thesis
    by (intro conjI runPeriodicCheck_issues
          runPeriodicCheck_documents [OF assms, unfolded freshScore_def] c
          periodicBody_issues periodicBody_documents)
qed

theorem periodic_check_persists_witness:
  "compliance_issues (fst (runPeriodicCheck defaultConfig 0 exampleDb)) =
     compliance_issues exampleDb @
       [\<lparr>issue_id = 2, document_id = ''doc-1'', issue_type = version_limit_exceeded,
         issue_severity = Medium,
         issue_message = ''Document has 51 versions, exceeding the recommended limit of 50'',
         issue_details = Some [(''versionCount'', DNum 51), (''maxVersions'', DNum 50)],
         issue_status = Open\<rparr>]
   \<and> version_limit_exceeded \<notin> openTypes exampleDb ''doc-1''
   \<and> link_expired \<in> openTypes exampleDb ''doc-1''
   \<and> documents (fst (runPeriodicCheck defaultConfig 0 exampleDb)) =
       [exampleDoc\<lparr>compliance_score := 100\<rparr>, pendingDoc]
   \<and> checked (snd (runPeriodicCheck defaultConfig 0 exampleDb)) = 1
   \<and> issuesFound (snd (runPeriodicCheck defaultConfig 0 exampleDb)) = 1"
proof -
  let ?row = "\<lparr>issue_id = 2, document_id = ''doc-1'', issue_type = version_limit_exceeded,
         issue_severity = Medium,
         issue_message = ''Document has 51 versions, exceeding the recommended limit of 50'',
         issue_details = Some [(''versionCount'', DNum 51), (''maxVersions'', DNum 50)],
         issue_status = Open\<rparr>"
  have h: "distinct (map doc_id (documents exampleDb))"
    by (simp add: exampleDb_def exampleDoc_def pendingDoc_def)
  note t = periodic_check_persists [OF h, where cfg = defaultConfig and now = 0
      and doc = exampleDoc]
  from t [THEN conjunct1] obtain created where
    c1: "compliance_issues (fst (runPeriodicCheck defaultConfig 0 exampleDb)) =
           compliance_issues exampleDb @ created" and
    c2: "\<forall>r \<in> set created. issue_type r \<notin> openTypes exampleDb (document_id r)
                             \<and> issue_status r = Open" and
    c3: "issuesFound (snd (runPeriodicCheck defaultConfig 0 exampleDb)) = length created"
    by blast
  have created: "created = [?row]"
    using c1 unfolding exampleDb_run_issues by simp
  have a: "compliance_issues (fst (runPeriodicCheck defaultConfig 0 exampleDb)) =
             compliance_issues exampleDb @ [?row]"
    using c1 unfolding created .
  have b: "version_limit_exceeded \<notin> openTypes exampleDb ''doc-1''"
    using c2 unfolding created by simp
  have c: "link_expired \<in> openTypes exampleDb ''doc-1''"
    by (simp add: exampleDb_openTypes)
  have st: "status exampleDoc = Synced" "status pendingDoc \<noteq> Synced"
    by (simp_all add: exampleDoc_def pendingDoc_def)
  have docs: "documents exampleDb = [exampleDoc, pendingDoc]"
    by (simp add: exampleDb_def)
  have d: "documents (fst (runPeriodicCheck defaultConfig 0 exampleDb)) =
       [exampleDoc\<lparr>compliance_score := 100\<rparr>, pendingDoc]"
    using t [THEN conjunct2, THEN conjunct1]
    by (simp add: docs st exampleDoc_result)
  have e: "checked (snd (runPeriodicCheck defaultConfig 0 exampleDb)) = 1"
    using t [THEN conjunct2, THEN conjunct2, THEN conjunct1]
    by (simp add: docs st)
  have f: "issuesFound (snd (runPeriodicCheck defaultConfig 0 exampleDb)) = 1"
    using c3 unfolding created by simp
  show ?thesis
    by (intro conjI a b c d e f)
qed

subsection \<open>Link and version issues and the verdict\<close>

text \<open>
  C10: every issue that \<^verbatim>\<open>checkLinkExpiry\<close> or \<^verbatim>\<open>checkVersionCount\<close>
  returns has severity high or medium, never critical; so appending their issues to the
  issue list of a result, as the periodic check does, keeps a list without critical
  issues free of them: a passed verdict is never turned into a failed one.
\<close>

theorem link_version_never_critical:
  "(checkLinkExpiry now e = Some i \<longrightarrow>
      (severity i = High \<or> severity i = Medium) \<and> severity i \<noteq> Critical)
   \<and> (checkVersionCount vs d mx = Some j \<longrightarrow>
      (severity j = High \<or> severity j = Medium) \<and> severity j \<noteq> Critical)
   \<and> (noCritical xs \<longrightarrow> noCritical (appendLinkAndVersion now db doc xs))
   \<and> (length (filter (\<lambda>i. severity i = Critical) xs) = 0 \<longrightarrow>
        length (filter (\<lambda>i. severity i = Critical) (appendLinkAndVersion now db doc xs)) = 0)"
proof -
  have len: "length (filter (\<lambda>i. severity i = Critical) ys) = 0 \<longleftrightarrow> noCritical ys" for ys
    by (simp add: noCritical_def filter_empty_conv)
  have a: "checkLinkExpiry now e = Some i \<longrightarrow>
      (severity i = High \<or> severity i = Medium) \<and> severity i \<noteq> Critical"
    using checkLinkExpiry_type [of now e i] by auto
  have b: "checkVersionCount vs d mx = Some j \<longrightarrow>
      (severity j = High \<or> severity j = Medium) \<and> severity j \<noteq> Critical"
    using checkVersionCount_type [of vs d mx j] by auto
  have c: "noCritical xs \<longrightarrow> noCritical (appendLinkAndVersion now db doc xs)"
    by (simp add: noCritical_appendLinkAndVersion)
  have d: "length (filter (\<lambda>i. severity i = Critical) xs) = 0 \<longrightarrow>
        length (filter (\<lambda>i. severity i = Critical) (appendLinkAndVersion now db doc xs)) = 0"
    unfolding len by (rule c)
  from a b c d show ?thesis by blast
qed

theorem link_version_never_critical_witness:
  "checkLinkExpiry 0 (Some (Date 0)) =
     Some \<lparr>type = link_expired, severity = Medium,
           message = ''Secure link will expire in 0 days'',
           details = Some [(''expiryDate'', DIso 0), (''daysUntilExpiry'', DNum 0)]\<rparr>
   \<and> severity \<lparr>type = link_expired, severity = Medium,
           message = ''Secure link will expire in 0 days'',
           details = Some [(''expiryDate'', DIso 0), (''daysUntilExpiry'', DNum 0)]\<rparr> \<noteq> Critical
   \<and> checkVersionCount (exampleVersions 51 ''doc-1'') ''doc-1'' None =
     Some \<lparr>type = version_limit_exceeded, severity = Medium,
           message = ''Document has 51 versions, exceeding the recommended limit of 50'',
           details = Some [(''versionCount'', DNum 51), (''maxVersions'', DNum 50)]\<rparr>
   \<and> severity \<lparr>type = version_limit_exceeded, severity = Medium,
           message = ''Document has 51 versions, exceeding the recommended limit of 50'',
           details = Some [(''versionCount'', DNum 51), (''maxVersions'', DNum 50)]\<rparr> \<noteq> Critical
   \<and> noCritical []
   \<and> noCritical (appendLinkAndVersion 0 exampleDb exampleDoc [])
   \<and> length (filter (\<lambda>i. severity i = Critical) (appendLinkAndVersion 0 exampleDb exampleDoc [])) = 0"
proof -
  let ?L = "\<lparr>type = link_expired, severity = Medium,
           message = ''Secure link will expire in 0 days'',
           details = Some [(''expiryDate'', DIso 0), (''daysUntilExpiry'', DNum 0)]\<rparr>"
  let ?V = "\<lparr>type = version_limit_exceeded, severity = Medium,
           message = ''Document has 51 versions, exceeding the recommended limit of 50'',
           details = Some [(''versionCount'', DNum 51), (''maxVersions'', DNum 50)]\<rparr>"
  have n: "noCritical []"
    by (simp add: noCritical_def)
  have l: "length (filter (\<lambda>i. severity i = Critical) ([] :: Issue list)) = 0"
    by simp
  note t = link_version_never_critical [where now = 0 and e = "Some (Date 0)" and i = ?L
      and vs = "exampleVersions 51 ''doc-1''" and d = "''doc-1''" and mx = None and j = ?V
      and xs = "[]" and db = exampleDb and doc = exampleDoc]
  note a = t [THEN conjunct1, THEN mp, OF checkLinkExpiry_now, THEN conjunct2]
  note b = t [THEN conjunct2, THEN conjunct1, THEN mp, OF checkVersionCount_51, THEN conjunct2]
  note c = t [THEN conjunct2, THEN conjunct2, THEN conjunct1, THEN mp, OF n]
  note d = t [THEN conjunct2, THEN conjunct2, THEN conjunct2, THEN mp, OF l]
  show ?thesis
    by (intro conjI checkLinkExpiry_now a checkVersionCount_51 b n c d)
qed

end
